theory Spec2Isabelle
  imports Main "HOL-Library.Sublist"
begin

section \<open>JavaScript values as the extension observes them\<close>

text \<open>
  The extension (web/js/aspectRatioResizer.js) receives event payloads that the host
  parsed from JSON, so a payload is \<open>null\<close>, a boolean, a number, a string, an array or a
  plain object; reading a property that is not there gives \<open>undefined\<close>.

  Numbers are IEEE doubles. The code only ever renders a number as text
  (template interpolation, \<open>toFixed\<close>) or tests its truthiness, so the type of numbers
  is a parameter \<open>'n\<close> and these three operations come with it in \<open>number_ops\<close>.

  Strings are lists of characters; text outside ASCII is held as its UTF-8 bytes.
  A plain object is the association list of its own properties (the first binding of
  a key is the property).
\<close>

datatype 'n jsval =
    JUndefined
  | JNull
  | JBool bool
  | JNum 'n
  | JStr string
  | JArr "'n jsval list"
  | JObj "(string \<times> 'n jsval) list"

record 'n number_ops =
  Number_toString :: "'n \<Rightarrow> string"
  Number_toFixed :: "'n \<Rightarrow> nat \<Rightarrow> string"
  Number_ToBoolean :: "'n \<Rightarrow> bool"

text \<open>
  The only exception the extension's own code can raise is a \<open>TypeError\<close> (reading a
  property of \<open>undefined\<close> or \<open>null\<close>, calling something that is not a function, turning
  an object without a usable \<open>toString\<close> into text). \<open>Thrown\<close> stands for an exception
  raised by host code that the extension calls, named by its message.
\<close>

datatype js_error = TypeError | Thrown string

definition tryE :: "js_error + 'a \<Rightarrow> ('a \<Rightarrow> js_error + 'b) \<Rightarrow> js_error + 'b" where
  "tryE m f = (case m of Inl e \<Rightarrow> Inl e | Inr x \<Rightarrow> f x)"

text \<open>
  Property read \<open>v.k\<close>. It raises on \<open>undefined\<close> and \<open>null\<close>; on an object it gives the
  own property or \<open>undefined\<close>; on any other value it gives \<open>undefined\<close>. It is used
  only with the property names that the source reads from payloads, none of which is
  defined on a built-in prototype.
\<close>

fun get_prop :: "'n jsval \<Rightarrow> string \<Rightarrow> js_error + 'n jsval" where
  "get_prop JUndefined k = Inl TypeError"
| "get_prop JNull k = Inl TypeError"
| "get_prop (JObj ps) k = Inr (case map_of ps k of None \<Rightarrow> JUndefined | Some v \<Rightarrow> v)"
| "get_prop (JBool b) k = Inr JUndefined"
| "get_prop (JNum n) k = Inr JUndefined"
| "get_prop (JStr s) k = Inr JUndefined"
| "get_prop (JArr xs) k = Inr JUndefined"

text \<open>\<open>Array.prototype.join\<close> on texts already computed, with the separator \<open>,\<close>.\<close>

fun join_comma :: "string list \<Rightarrow> string" where
  "join_comma [] = []"
| "join_comma [s] = s"
| "join_comma (s # t # ts) = s @ '','' @ join_comma (t # ts)"

fun sequenceE :: "(js_error + 'a) list \<Rightarrow> js_error + 'a list" where
  "sequenceE [] = Inr []"
| "sequenceE (m # ms) = tryE m (\<lambda>x. tryE (sequenceE ms) (\<lambda>xs. Inr (x # xs)))"

text \<open>
  \<open>ToString\<close>, as a template literal applies it to an interpolated value. An array is
  joined with commas, \<open>undefined\<close> and \<open>null\<close> elements giving the empty text. A plain
  object gives \<open>[object Object]\<close>, unless it has an own property \<open>toString\<close>: that one
  comes from JSON, is not callable, and then the conversion raises.
\<close>

fun ToString :: "'n number_ops \<Rightarrow> 'n jsval \<Rightarrow> js_error + string" where
  "ToString ops JUndefined = Inr ''undefined''"
| "ToString ops JNull = Inr ''null''"
| "ToString ops (JBool b) = Inr (if b then ''true'' else ''false'')"
| "ToString ops (JNum n) = Inr (Number_toString ops n)"
| "ToString ops (JStr s) = Inr s"
| "ToString ops (JArr xs) =
     tryE (sequenceE (map (\<lambda>x. if x = JUndefined \<or> x = JNull then Inr [] else ToString ops x) xs))
       (\<lambda>ts. Inr (join_comma ts))"
| "ToString ops (JObj ps) =
     (if ''toString'' \<in> fst ` set ps then Inl TypeError else Inr ''[object Object]'')"

text \<open>\<open>ToBoolean\<close>, as \<open>if (v)\<close> applies it.\<close>

fun ToBoolean :: "'n number_ops \<Rightarrow> 'n jsval \<Rightarrow> bool" where
  "ToBoolean ops JUndefined = False"
| "ToBoolean ops JNull = False"
| "ToBoolean ops (JBool b) = b"
| "ToBoolean ops (JNum n) = Number_ToBoolean ops n"
| "ToBoolean ops (JStr s) = (s \<noteq> [])"
| "ToBoolean ops (JArr xs) = True"
| "ToBoolean ops (JObj ps) = True"

text \<open>The interpolation \<open>${v.k}\<close> of a template literal.\<close>

definition template_prop :: "'n number_ops \<Rightarrow> 'n jsval \<Rightarrow> string \<Rightarrow> js_error + string" where
  "template_prop ops v k = tryE (get_prop v k) (ToString ops)"

text \<open>
  The method calls \<open>v.forEach(...)\<close> and \<open>v.some(...)\<close> find a function only when \<open>v\<close> is an
  array; \<open>array_receiver\<close> gives its elements, and a \<open>TypeError\<close> for any other value.
\<close>

fun array_receiver :: "'n jsval \<Rightarrow> js_error + 'n jsval list" where
  "array_receiver (JArr xs) = Inr xs"
| "array_receiver JUndefined = Inl TypeError"
| "array_receiver JNull = Inl TypeError"
| "array_receiver (JBool b) = Inl TypeError"
| "array_receiver (JNum n) = Inl TypeError"
| "array_receiver (JStr s) = Inl TypeError"
| "array_receiver (JObj ps) = Inl TypeError"

text \<open>
  \<open>forEach\<close> with a callback that updates the enclosing variable \<open>message\<close>: the callback
  takes the element, its index and the state, and the first exception ends the loop.
\<close>

fun forEach_from :: "nat \<Rightarrow> ('a \<Rightarrow> nat \<Rightarrow> 's \<Rightarrow> js_error + 's) \<Rightarrow> 'a list \<Rightarrow> 's \<Rightarrow> js_error + 's" where
  "forEach_from i f [] s = Inr s"
| "forEach_from i f (x # xs) s = tryE (f x i s) (forEach_from (Suc i) f xs)"

definition forEach :: "('a \<Rightarrow> nat \<Rightarrow> 's \<Rightarrow> js_error + 's) \<Rightarrow> 'a list \<Rightarrow> 's \<Rightarrow> js_error + 's" where
  "forEach f xs s = forEach_from 0 f xs s"

text \<open>\<open>some\<close> stops at the first element for which the callback gives true.\<close>

fun some :: "('a \<Rightarrow> js_error + bool) \<Rightarrow> 'a list \<Rightarrow> js_error + bool" where
  "some p [] = Inr False"
| "some p (x # xs) = tryE (p x) (\<lambda>b. if b then Inr True else some p xs)"

text \<open>\<open>String.prototype.includes\<close>: the needle occurs as a contiguous part.\<close>

definition String_includes :: "string \<Rightarrow> string \<Rightarrow> bool" where
  "String_includes s needle = sublist needle s"

text \<open>
  The method call \<open>v.includes(needle)\<close> with a string needle: on a string the substring
  test, on an array the membership test (only a string element equals a string), and a
  \<open>TypeError\<close> on every other value.
\<close>

fun includes_call :: "'n jsval \<Rightarrow> string \<Rightarrow> js_error + bool" where
  "includes_call (JStr s) needle = Inr (String_includes s needle)"
| "includes_call (JArr xs) needle = Inr (JStr needle \<in> set xs)"
| "includes_call JUndefined needle = Inl TypeError"
| "includes_call JNull needle = Inl TypeError"
| "includes_call (JBool b) needle = Inl TypeError"
| "includes_call (JNum n) needle = Inl TypeError"
| "includes_call (JObj ps) needle = Inl TypeError"

text \<open>The method call \<open>v.toFixed(d)\<close>: only a number has the method.\<close>

fun toFixed_call :: "'n number_ops \<Rightarrow> 'n jsval \<Rightarrow> nat \<Rightarrow> js_error + string" where
  "toFixed_call ops (JNum n) d = Inr (Number_toFixed ops n d)"
| "toFixed_call ops JUndefined d = Inl TypeError"
| "toFixed_call ops JNull d = Inl TypeError"
| "toFixed_call ops (JBool b) d = Inl TypeError"
| "toFixed_call ops (JStr s) d = Inl TypeError"
| "toFixed_call ops (JArr xs) d = Inl TypeError"
| "toFixed_call ops (JObj ps) d = Inl TypeError"

text \<open>Decimal text of an array index plus one (a positive integer).\<close>

definition digit :: "nat \<Rightarrow> char" where
  "digit d = ''0123456789'' ! d"

fun decimal :: "nat \<Rightarrow> string" where
  "decimal n = (if n < 10 then [digit n] else decimal (n div 10) @ [digit (n mod 10)])"

declare decimal.simps [simp del]

definition newline :: string where
  "newline = [CHR 0x0A]"

text \<open>The arrow U+2192 of the source text, as its UTF-8 bytes.\<close>

definition arrow :: string where
  "arrow = [CHR 0xE2, CHR 0x86, CHR 0x92]"

section \<open>The event display shim\<close>

text \<open>
  An event carries its payload in \<open>detail\<close>. The console is the list of the
  \<open>console.log\<close> calls made so far, each call being the list of its arguments.
  A handler returns how it completed together with the console it leaves.
\<close>

record 'n event =
  detail :: "'n jsval"

type_synonym 'n console = "'n jsval list list"

subsection \<open>resizeInfoHandler\<close>

text \<open>
  The callback of \<open>data.resize_info.forEach\<close>: \<open>resizeInfo_line\<close> is the value of the
  variable \<open>line\<close> at the end of the callback, \<open>resizeInfo_callback\<close> appends it and a
  newline to \<open>message\<close>.
\<close>

definition resizeInfo_line :: "'n number_ops \<Rightarrow> 'n jsval \<Rightarrow> nat \<Rightarrow> js_error + string" where
  "resizeInfo_line ops info index =
     tryE (template_prop ops info ''original'') (\<lambda>original.
     tryE (template_prop ops info ''new'') (\<lambda>new.
     tryE (template_prop ops info ''scale'') (\<lambda>scale.
     let line = ''Image '' @ decimal (index + 1) @ '': '' @ original @ '' '' @ arrow @ '' '' @ new
                  @ '' (scale: '' @ scale @ '')''
     in tryE (get_prop info ''constraint'') (\<lambda>c.
          if ToBoolean ops c
          then tryE (template_prop ops info ''constraint'') (\<lambda>constraint.
                 Inr (line @ '' ['' @ constraint @ '']''))
          else Inr line))))"

definition resizeInfo_callback :: "'n number_ops \<Rightarrow> 'n jsval \<Rightarrow> nat \<Rightarrow> string \<Rightarrow> js_error + string" where
  "resizeInfo_callback ops info index message =
     tryE (resizeInfo_line ops info index) (\<lambda>line. Inr (message @ line @ newline))"

text \<open>The header block: the value of \<open>message\<close> just before the \<open>forEach\<close>.\<close>

definition resizeInfo_header :: "'n number_ops \<Rightarrow> 'n jsval \<Rightarrow> js_error + string" where
  "resizeInfo_header ops data =
     tryE (template_prop ops data ''constraints'') (\<lambda>constraints.
     tryE (template_prop ops data ''resize_mode'') (\<lambda>resize_mode.
     tryE (template_prop ops data ''enable_width'') (\<lambda>enable_width.
     tryE (template_prop ops data ''enable_height'') (\<lambda>enable_height.
     tryE (template_prop ops data ''batch_size'') (\<lambda>batch_size.
     Inr (''Aspect Ratio Resizer Results:'' @ newline
          @ ''Constraints: '' @ constraints @ newline
          @ ''Resize Mode: '' @ resize_mode @ newline
          @ ''Width Enabled: '' @ enable_width @ newline
          @ ''Height Enabled: '' @ enable_height @ newline
          @ ''Batch Size: '' @ batch_size @ newline @ newline))))))"

text \<open>The value of \<open>message\<close> after the \<open>forEach\<close>.\<close>

definition resizeInfo_message :: "'n number_ops \<Rightarrow> 'n jsval \<Rightarrow> js_error + string" where
  "resizeInfo_message ops data =
     tryE (resizeInfo_header ops data) (\<lambda>message.
     tryE (get_prop data ''resize_info'') (\<lambda>resize_info.
     tryE (array_receiver resize_info) (\<lambda>infos.
     forEach (resizeInfo_callback ops) infos message)))"

text \<open>
  The callback of \<open>data.resize_info.some\<close>, shared by both handlers:
  \<open>info.new !== "unchanged" && !info.new.includes("unchanged")\<close>.
\<close>

definition was_resized :: "'n jsval \<Rightarrow> js_error + bool" where
  "was_resized info =
     tryE (get_prop info ''new'') (\<lambda>new.
     if new \<noteq> JStr ''unchanged''
     then tryE (get_prop info ''new'') (\<lambda>new2.
          tryE (includes_call new2 ''unchanged'') (\<lambda>b. Inr (\<not> b)))
     else Inr False)"

definition any_resized :: "'n jsval \<Rightarrow> js_error + bool" where
  "any_resized data =
     tryE (get_prop data ''resize_info'') (\<lambda>resize_info.
     tryE (array_receiver resize_info) (\<lambda>infos.
     some was_resized infos))"

definition resizeInfoHandler :: "'n number_ops \<Rightarrow> 'n event \<Rightarrow> 'n console \<Rightarrow> (js_error + unit) \<times> 'n console" where
  "resizeInfoHandler ops event console =
     (let data = detail event in
      case resizeInfo_message ops data of
        Inl e \<Rightarrow> (Inl e, console)
      | Inr message \<Rightarrow>
          (let console1 = console @ [[JStr ''Aspect Ratio Resizer:'', data]] in
           case any_resized data of
             Inl e \<Rightarrow> (Inl e, console1)
           | Inr b \<Rightarrow> if b then (Inr (), console1 @ [[JStr message]]) else (Inr (), console1)))"

subsection \<open>megapixelReducerHandler\<close>

definition megapixel_line :: "'n number_ops \<Rightarrow> 'n jsval \<Rightarrow> nat \<Rightarrow> js_error + string" where
  "megapixel_line ops info index =
     tryE (template_prop ops info ''original'') (\<lambda>original.
     tryE (template_prop ops info ''new'') (\<lambda>new.
     let line = ''Image '' @ decimal (index + 1) @ '': '' @ original @ '' '' @ arrow @ '' '' @ new
     in tryE (template_prop ops info ''megapixels'') (\<lambda>megapixels.
        tryE (template_prop ops info ''scale'') (\<lambda>scale.
        Inr (line @ '' ('' @ megapixels @ '') [scale: '' @ scale @ '']'')))))"

definition megapixel_callback :: "'n number_ops \<Rightarrow> 'n jsval \<Rightarrow> nat \<Rightarrow> string \<Rightarrow> js_error + string" where
  "megapixel_callback ops info index message =
     tryE (megapixel_line ops info index) (\<lambda>line. Inr (message @ line @ newline))"

definition megapixel_header :: "'n number_ops \<Rightarrow> 'n jsval \<Rightarrow> js_error + string" where
  "megapixel_header ops data =
     tryE (template_prop ops data ''max_megapixels'') (\<lambda>max_megapixels.
     tryE (get_prop data ''original_megapixels'') (\<lambda>om.
     tryE (toFixed_call ops om 2) (\<lambda>original_megapixels.
     tryE (template_prop ops data ''only_reduce'') (\<lambda>only_reduce.
     tryE (template_prop ops data ''batch_size'') (\<lambda>batch_size.
     Inr (''Auto Megapixel Reducer Results:'' @ newline
          @ ''Target: '' @ max_megapixels @ ''MP'' @ newline
          @ ''Original: '' @ original_megapixels @ ''MP'' @ newline
          @ ''Only Reduce Mode: '' @ only_reduce @ newline
          @ ''Batch Size: '' @ batch_size @ newline @ newline))))))"

definition megapixel_message :: "'n number_ops \<Rightarrow> 'n jsval \<Rightarrow> js_error + string" where
  "megapixel_message ops data =
     tryE (megapixel_header ops data) (\<lambda>message.
     tryE (get_prop data ''resize_info'') (\<lambda>resize_info.
     tryE (array_receiver resize_info) (\<lambda>infos.
     forEach (megapixel_callback ops) infos message)))"

definition megapixelReducerHandler :: "'n number_ops \<Rightarrow> 'n event \<Rightarrow> 'n console \<Rightarrow> (js_error + unit) \<times> 'n console" where
  "megapixelReducerHandler ops event console =
     (let data = detail event in
      case megapixel_message ops data of
        Inl e \<Rightarrow> (Inl e, console)
      | Inr message \<Rightarrow>
          (let console1 = console @ [[JStr ''Auto Megapixel Reducer:'', data]] in
           case any_resized data of
             Inl e \<Rightarrow> (Inl e, console1)
           | Inr b \<Rightarrow> if b then (Inr (), console1 @ [[JStr message]]) else (Inr (), console1)))"

section \<open>The payloads of the data model\<close>

text \<open>
  Well-formed payloads, typed as the data model gives them, and the JavaScript values
  that carry them. An absent optional \<open>constraint\<close> is an absent property.
\<close>

record entry =
  original :: string
  new :: string
  scale :: string

record resize_entry = entry +
  constraint :: "string option"

record megapixel_entry = entry +
  megapixels :: string

record ('n, 'e) batch =
  batch_size :: 'n
  resize_info :: "'e list"

record 'n ResizeInfoEvent = "('n, resize_entry) batch" +
  constraints :: string
  resize_mode :: string
  enable_width :: bool
  enable_height :: bool

record 'n MegapixelReducerEvent = "('n, megapixel_entry) batch" +
  max_megapixels :: 'n
  original_megapixels :: 'n
  only_reduce :: bool

definition resize_entry_value :: "resize_entry \<Rightarrow> 'n jsval" where
  "resize_entry_value info =
     JObj ([(''original'', JStr (original info)), (''new'', JStr (new info)),
            (''scale'', JStr (scale info))]
           @ (case constraint info of None \<Rightarrow> [] | Some c \<Rightarrow> [(''constraint'', JStr c)]))"

definition megapixel_entry_value :: "megapixel_entry \<Rightarrow> 'n jsval" where
  "megapixel_entry_value info =
     JObj [(''original'', JStr (original info)), (''new'', JStr (new info)),
           (''megapixels'', JStr (megapixels info)), (''scale'', JStr (scale info))]"

definition ResizeInfoEvent_value :: "'n ResizeInfoEvent \<Rightarrow> 'n jsval" where
  "ResizeInfoEvent_value d =
     JObj [(''constraints'', JStr (constraints d)), (''resize_mode'', JStr (resize_mode d)),
           (''enable_width'', JBool (enable_width d)), (''enable_height'', JBool (enable_height d)),
           (''batch_size'', JNum (batch_size d)),
           (''resize_info'', JArr (map resize_entry_value (resize_info d)))]"

definition MegapixelReducerEvent_value :: "'n MegapixelReducerEvent \<Rightarrow> 'n jsval" where
  "MegapixelReducerEvent_value d =
     JObj [(''max_megapixels'', JNum (max_megapixels d)),
           (''original_megapixels'', JNum (original_megapixels d)),
           (''only_reduce'', JBool (only_reduce d)),
           (''batch_size'', JNum (batch_size d)),
           (''resize_info'', JArr (map megapixel_entry_value (resize_info d)))]"

text \<open>
  Numbers that are integers of magnitude at most \<open>2^53\<close>: there the text of a number
  is its decimal numeral and \<open>toFixed(d)\<close> appends \<open>d\<close> zero decimals. Beyond that
  range JavaScript prints the shortest digits that identify the double, which this
  instance does not do; the concrete payloads below use the numbers 0, 1, 2 and 8 only.
\<close>

definition integer_ops :: "int number_ops" where
  "integer_ops =
     \<lparr> Number_toString = (\<lambda>n. if n < 0 then ''-'' @ decimal (nat (- n)) else decimal (nat n)),
       Number_toFixed = (\<lambda>n d. (if n < 0 then ''-'' @ decimal (nat (- n)) else decimal (nat n))
                                @ (if d = 0 then [] else ''.'' @ replicate d (CHR ''0''))),
       Number_ToBoolean = (\<lambda>n. n \<noteq> 0) \<rparr>"

text \<open>The lines of a text, as \<open>text.split("\\n")\<close> gives them.\<close>

fun split_on :: "char \<Rightarrow> string \<Rightarrow> string list" where
  "split_on c [] = [[]]"
| "split_on c (x # xs) =
     (if x = c then [] # split_on c xs
      else (case split_on c xs of [] \<Rightarrow> [[x]] | l # ls \<Rightarrow> (x # l) # ls))"

definition lines_of :: "string \<Rightarrow> string list" where
  "lines_of s = split_on (CHR 0x0A) s"

text \<open>
  A text without a line break, an entry and an event all of whose strings (and whose
  rendered batch size) are such texts, and the image lines of a message: those of its
  lines that begin with \<open>Image\<close> and a space.
\<close>

definition single_line :: "string \<Rightarrow> bool" where
  "single_line s = (CHR 0x0A \<notin> set s)"

definition single_line_entry :: "resize_entry \<Rightarrow> bool" where
  "single_line_entry info =
     (single_line (original info) \<and> single_line (new info) \<and> single_line (scale info)
      \<and> (case constraint info of None \<Rightarrow> True | Some c \<Rightarrow> single_line c))"

definition single_line_event :: "'n number_ops \<Rightarrow> 'n ResizeInfoEvent \<Rightarrow> bool" where
  "single_line_event ops d =
     (single_line (constraints d) \<and> single_line (resize_mode d)
      \<and> single_line (Number_toString ops (batch_size d))
      \<and> list_all single_line_entry (resize_info d))"

definition image_lines :: "string \<Rightarrow> string list" where
  "image_lines text = filter (prefix ''Image '') (lines_of text)"

section \<open>The node cosmetic decorator\<close>

text \<open>
  A node instance has the three presentation fields the decorator writes; whatever
  else it holds is the extension part of the record. A method takes its receiver and
  its arguments and gives how it completed (a return value or an exception) and the
  receiver it leaves. The value at \<open>nodeType.prototype.onNodeCreated\<close> is a function or
  some other value; \<open>Value JUndefined\<close> is an absent hook.
\<close>

record 'n node =
  title :: "'n jsval"
  color :: "'n jsval"
  bgcolor :: "'n jsval"

type_synonym ('n, 'z) node_method =
  "('n, 'z) node_scheme \<Rightarrow> 'n jsval list \<Rightarrow> (js_error + 'n jsval) \<times> ('n, 'z) node_scheme"

datatype ('n, 'z) hook = Value "'n jsval" | Function "('n, 'z) node_method"

record ('n, 'z) prototype =
  onNodeCreated :: "('n, 'z) hook"

record ('n, 'z, 'p) nodeType =
  prototype :: "('n, 'z, 'p) prototype_scheme"

record nodeData =
  name :: string

text \<open>
  \<open>onNodeCreated?.apply(this, arguments)\<close>: \<open>undefined\<close> when the hook is \<open>undefined\<close> or
  \<open>null\<close>, the call when it is a function, and a \<open>TypeError\<close> for any other value
  (it has no callable \<open>apply\<close>).
\<close>

definition optional_apply :: "('n, 'z) hook \<Rightarrow> ('n, 'z) node_method" where
  "optional_apply h this arguments =
     (case h of
        Function f \<Rightarrow> f this arguments
      | Value v \<Rightarrow> if v = JUndefined \<or> v = JNull then (Inr JUndefined, this)
                  else (Inl TypeError, this))"

text \<open>
  A call \<open>h.apply(this, arguments)\<close> of the value \<open>h\<close> found at a hook property, as the host
  makes it when it creates a node: only a function can be called.
\<close>

definition call_hook :: "('n, 'z) hook \<Rightarrow> ('n, 'z) node_method" where
  "call_hook h this arguments =
     (case h of
        Function f \<Rightarrow> f this arguments
      | Value v \<Rightarrow> (Inl TypeError, this))"

text \<open>The two functions that \<open>beforeRegisterNodeDef\<close> installs; each closes over the
  hook that was there before.\<close>

definition AspectRatioResizer_onNodeCreated :: "('n, 'z) hook \<Rightarrow> ('n, 'z) node_method" where
  "AspectRatioResizer_onNodeCreated onNodeCreated0 this arguments =
     (case optional_apply onNodeCreated0 this arguments of
        (Inl e, this1) \<Rightarrow> (Inl e, this1)
      | (Inr result, this1) \<Rightarrow>
          (Inr result,
           this1\<lparr>title := JStr ''Aspect Ratio Resizer'',
                 color := JStr ''#2a4d3a'',
                 bgcolor := JStr ''#335544''\<rparr>))"

definition AutoMegapixelReducer_onNodeCreated :: "('n, 'z) hook \<Rightarrow> ('n, 'z) node_method" where
  "AutoMegapixelReducer_onNodeCreated onNodeCreated0 this arguments =
     (case optional_apply onNodeCreated0 this arguments of
        (Inl e, this1) \<Rightarrow> (Inl e, this1)
      | (Inr result, this1) \<Rightarrow>
          (Inr result,
           this1\<lparr>title := JStr ''Auto Megapixel Reducer'',
                 color := JStr ''#4d2a3a'',
                 bgcolor := JStr ''#553344''\<rparr>))"

definition beforeRegisterNodeDef ::
  "('n, 'z, 'p, 't) nodeType_scheme \<Rightarrow> 'd nodeData_scheme \<Rightarrow> 'app
     \<Rightarrow> ('n, 'z, 'p, 't) nodeType_scheme" where
  "beforeRegisterNodeDef nodeType nodeData app =
     (let nodeType1 =
            (if name nodeData = ''AspectRatioResizer''
             then nodeType\<lparr>prototype := (prototype nodeType)
                    \<lparr>onNodeCreated :=
                       Function (AspectRatioResizer_onNodeCreated (onNodeCreated (prototype nodeType)))\<rparr>\<rparr>
             else nodeType)
      in if name nodeData = ''AutoMegapixelReducer''
         then nodeType1\<lparr>prototype := (prototype nodeType1)
                \<lparr>onNodeCreated :=
                   Function (AutoMegapixelReducer_onNodeCreated (onNodeCreated (prototype nodeType1)))\<rparr>\<rparr>
         else nodeType1)"

section \<open>Payloads with missing fields\<close>

text \<open>
  A partially populated payload is an object in which every field that a template
  interpolates is missing or holds a primitive value (a string, a number, a boolean or
  \<open>null\<close>), and in which the entries of \<open>resize_info\<close>, when that is an array, are such
  objects too. Nothing is asked of \<open>resize_info\<close> and \<open>original_megapixels\<close> themselves.

  \<open>own_field\<close> is the value a property read gives on an object, and \<open>field_text\<close> the text
  a template shows for it: the text of a missing field is \<open>undefined\<close>.
\<close>

fun primitive :: "'n jsval \<Rightarrow> bool" where
  "primitive (JArr xs) = False"
| "primitive (JObj ps) = False"
| "primitive v = True"

fun is_object :: "'n jsval \<Rightarrow> bool" where
  "is_object (JObj ps) = True"
| "is_object v = False"

fun is_number :: "'n jsval \<Rightarrow> bool" where
  "is_number (JNum n) = True"
| "is_number v = False"

fun own_field :: "'n jsval \<Rightarrow> string \<Rightarrow> 'n jsval" where
  "own_field (JObj ps) k = (case map_of ps k of None \<Rightarrow> JUndefined | Some v \<Rightarrow> v)"
| "own_field v k = JUndefined"

fun primitive_text :: "'n number_ops \<Rightarrow> 'n jsval \<Rightarrow> string" where
  "primitive_text ops JUndefined = ''undefined''"
| "primitive_text ops JNull = ''null''"
| "primitive_text ops (JBool b) = (if b then ''true'' else ''false'')"
| "primitive_text ops (JNum n) = Number_toString ops n"
| "primitive_text ops (JStr s) = s"
| "primitive_text ops (JArr xs) = []"
| "primitive_text ops (JObj ps) = []"

definition field_text :: "'n number_ops \<Rightarrow> 'n jsval \<Rightarrow> string \<Rightarrow> string" where
  "field_text ops v k = primitive_text ops (own_field v k)"

text \<open>The suffix of an image line: the constraint in square brackets when it is truthy.\<close>

definition bracketed_constraint :: "'n number_ops \<Rightarrow> 'n jsval \<Rightarrow> string" where
  "bracketed_constraint ops info =
     (if ToBoolean ops (own_field info ''constraint'')
      then '' ['' @ field_text ops info ''constraint'' @ '']'' else [])"

definition primitive_fields :: "'n jsval \<Rightarrow> string list \<Rightarrow> bool" where
  "primitive_fields v ks = (is_object v \<and> list_all (\<lambda>k. primitive (own_field v k)) ks)"

definition partial_resize_entry :: "'n jsval \<Rightarrow> bool" where
  "partial_resize_entry info =
     primitive_fields info [''original'', ''new'', ''scale'', ''constraint'']"

definition partial_megapixel_entry :: "'n jsval \<Rightarrow> bool" where
  "partial_megapixel_entry info =
     primitive_fields info [''original'', ''new'', ''megapixels'', ''scale'']"

fun entries_of :: "'n jsval \<Rightarrow> 'n jsval list option" where
  "entries_of (JArr infos) = Some infos"
| "entries_of v = None"

definition partial_ResizeInfoEvent :: "'n jsval \<Rightarrow> bool" where
  "partial_ResizeInfoEvent data =
     (primitive_fields data
        [''constraints'', ''resize_mode'', ''enable_width'', ''enable_height'', ''batch_size'']
      \<and> (case entries_of (own_field data ''resize_info'') of
            None \<Rightarrow> True
          | Some infos \<Rightarrow> list_all partial_resize_entry infos))"

definition partial_MegapixelReducerEvent :: "'n jsval \<Rightarrow> bool" where
  "partial_MegapixelReducerEvent data =
     (primitive_fields data [''max_megapixels'', ''only_reduce'', ''batch_size'']
      \<and> (case entries_of (own_field data ''resize_info'') of
            None \<Rightarrow> True
          | Some infos \<Rightarrow> list_all partial_megapixel_entry infos))"

text \<open>
  When the handlers complete. The scan of \<open>some\<close> goes through the entries in order and
  stops at the first whose \<open>new\<close> is a string without the text \<open>unchanged\<close>; it raises at
  an entry whose \<open>new\<close> is not a string. resizeInfoHandler completes when \<open>resize_info\<close> is
  an array on which the scan completes, megapixelReducerHandler when moreover
  \<open>original_megapixels\<close> is a number.
\<close>

fun scan_completes :: "'n jsval list \<Rightarrow> bool" where
  "scan_completes [] = True"
| "scan_completes (info # infos) =
     (case own_field info ''new'' of
        JStr s \<Rightarrow> (if String_includes s ''unchanged'' then scan_completes infos else True)
      | _ \<Rightarrow> False)"

definition resizeInfo_completes :: "'n jsval \<Rightarrow> bool" where
  "resizeInfo_completes data =
     (case entries_of (own_field data ''resize_info'') of
        None \<Rightarrow> False
      | Some infos \<Rightarrow> scan_completes infos)"

definition megapixel_completes :: "'n jsval \<Rightarrow> bool" where
  "megapixel_completes data =
     (is_number (own_field data ''original_megapixels'') \<and> resizeInfo_completes data)"

section \<open>Sample payloads and nodes\<close>

text \<open>
  The example event of the specification (its batch size is the integer 1), and other
  concrete payloads and nodes on which the properties below are exercised.
\<close>

definition example_event :: "int ResizeInfoEvent" where
  "example_event =
     \<lparr>batch_size = 1,
      resize_info = [\<lparr>original = ''1920x1080'', new = ''1024x576'', scale = ''0.533'',
                      constraint = None\<rparr>],
      constraints = ''width'', resize_mode = ''downscale_only'',
      enable_width = True, enable_height = False\<rparr>"

definition unchanged_event :: "int ResizeInfoEvent" where
  "unchanged_event =
     \<lparr>batch_size = 1,
      resize_info = [\<lparr>original = ''512x512'', new = ''unchanged'', scale = ''1.000'',
                      constraint = None\<rparr>],
      constraints = ''width'', resize_mode = ''downscale_only'',
      enable_width = True, enable_height = False\<rparr>"

definition marked_unchanged_event :: "int ResizeInfoEvent" where
  "marked_unchanged_event =
     \<lparr>batch_size = 1,
      resize_info = [\<lparr>original = ''512x512'', new = ''512x512 (unchanged)'', scale = ''1.000'',
                      constraint = None\<rparr>],
      constraints = ''width'', resize_mode = ''downscale_only'',
      enable_width = True, enable_height = False\<rparr>"

definition line_break_event :: "int ResizeInfoEvent" where
  "line_break_event =
     \<lparr>batch_size = 1,
      resize_info = [\<lparr>original = ''1920x1080'', new = ''1024x576'', scale = ''0.533'',
                      constraint = None\<rparr>],
      constraints = ''width'' @ newline @ ''Image 9: as the backend wrote it'',
      resize_mode = ''downscale_only'',
      enable_width = True, enable_height = False\<rparr>"

definition reduced_event :: "int MegapixelReducerEvent" where
  "reduced_event =
     \<lparr>batch_size = 1,
      resize_info = [\<lparr>original = ''3840x2160'', new = ''1884x1060'', scale = ''0.491'',
                      megapixels = ''2.00MP''\<rparr>],
      max_megapixels = 2, original_megapixels = 8, only_reduce = True\<rparr>"

definition unreduced_event :: "int MegapixelReducerEvent" where
  "unreduced_event =
     \<lparr>batch_size = 1,
      resize_info = [\<lparr>original = ''1024x768'', new = ''unchanged'', scale = ''1.000'',
                      megapixels = ''0.79MP''\<rparr>],
      max_megapixels = 2, original_megapixels = 0, only_reduce = True\<rparr>"

definition empty_constraint_entry :: resize_entry where
  "empty_constraint_entry =
     \<lparr>original = ''1920x1080'', new = ''1024x576'', scale = ''0.533'', constraint = Some []\<rparr>"

definition sparse_resize_fields :: "(string \<times> int jsval) list" where
  "sparse_resize_fields = [(''resize_info'', JArr [JObj [(''new'', JStr ''1024x576'')]])]"

definition sparse_resize_payload :: "int jsval" where
  "sparse_resize_payload = JObj sparse_resize_fields"

definition sparse_megapixel_payload :: "int jsval" where
  "sparse_megapixel_payload =
     JObj [(''original_megapixels'', JNum 8),
           (''resize_info'', JArr [JObj [(''new'', JStr ''1884x1060'')]])]"

definition fields_without_resize_info :: "(string \<times> int jsval) list" where
  "fields_without_resize_info =
     [(''constraints'', JStr ''width''), (''resize_mode'', JStr ''downscale_only''),
      (''enable_width'', JBool True), (''enable_height'', JBool False),
      (''batch_size'', JNum 1)]"

definition fields_without_original_megapixels :: "(string \<times> int jsval) list" where
  "fields_without_original_megapixels =
     [(''max_megapixels'', JNum 2), (''only_reduce'', JBool True), (''batch_size'', JNum 1),
      (''resize_info'', JArr [])]"

definition payload_with_entry_without_new :: "int jsval" where
  "payload_with_entry_without_new =
     JObj [(''resize_info'', JArr [JObj [(''original'', JStr ''1920x1080'')]])]"

definition payload_without_new_after_resized :: "int jsval" where
  "payload_without_new_after_resized =
     JObj [(''resize_info'',
            JArr [JObj [(''new'', JStr ''1024x576'')], JObj [(''original'', JStr ''512x512'')]])]"

definition fresh_node :: "int node" where
  "fresh_node = \<lparr>title = JStr ''untitled'', color = JUndefined, bgcolor = JUndefined\<rparr>"

definition returning_hook :: "(int, unit) node_method" where
  "returning_hook this arguments = (Inr (JStr ''created''), this\<lparr>title := JStr ''set by the hook''\<rparr>)"

definition throwing_hook :: "(int, unit) node_method" where
  "throwing_hook this arguments = (Inl (Thrown ''boom''), this)"

definition node_type_with :: "(int, unit) hook \<Rightarrow> (int, unit, unit) nodeType" where
  "node_type_with h = \<lparr>prototype = \<lparr>onNodeCreated = h\<rparr>\<rparr>"

section \<open>Auxiliary facts\<close>

lemma tryE_Inr [simp]: "tryE (Inr x) f = f x"
  by (simp add: tryE_def)

lemma tryE_Inl [simp]: "tryE (Inl e) f = Inl e"
  by (simp add: tryE_def)

lemma forEach_from_appends:
  assumes "\<And>x i s. x \<in> set xs \<Longrightarrow> f x i s = Inr (s @ g x i)"
  shows "forEach_from i f xs s = Inr (s @ concat (map (\<lambda>(x, j). g x j) (zip xs [i ..< i + length xs])))"
  using assms
proof (induction xs arbitrary: i s)
  case Nil
  then show ?case by simp
next
  case (Cons x xs)
  have step: "f x i s = Inr (s @ g x i)"
    using Cons.prems by simp
  have rest: "forEach_from (Suc i) f xs (s @ g x i)
      = Inr ((s @ g x i) @ concat (map (\<lambda>(x, j). g x j) (zip xs [Suc i ..< Suc i + length xs])))"
    using Cons.prems by (intro Cons.IH) simp
  have idx: "[i ..< i + length (x # xs)] = i # [Suc i ..< Suc i + length xs]"
    by (simp add: upt_rec)
  show ?case
    by (simp only: forEach_from.simps step tryE_Inr rest idx zip_Cons_Cons list.map concat.simps
        prod.case append_assoc)
qed

lemma resizeInfo_line_value:
  "resizeInfo_line ops (resize_entry_value info) index =
     Inr (''Image '' @ decimal (index + 1) @ '': '' @ original info @ '' '' @ arrow @ '' '' @ new info
          @ '' (scale: '' @ scale info @ '')''
          @ (case constraint info of None \<Rightarrow> [] | Some c \<Rightarrow> if c = [] then [] else '' ['' @ c @ '']''))"
  by (simp add: resizeInfo_line_def resize_entry_value_def template_prop_def split: option.split)

lemma megapixel_line_value:
  "megapixel_line ops (megapixel_entry_value info) index =
     Inr (''Image '' @ decimal (index + 1) @ '': '' @ original info @ '' '' @ arrow @ '' '' @ new info
          @ '' ('' @ megapixels info @ '') [scale: '' @ scale info @ '']'')"
  by (simp add: megapixel_line_def megapixel_entry_value_def template_prop_def)

lemma resizeInfo_header_value:
  "resizeInfo_header ops (ResizeInfoEvent_value d) =
     Inr (''Aspect Ratio Resizer Results:'' @ newline
          @ ''Constraints: '' @ constraints d @ newline
          @ ''Resize Mode: '' @ resize_mode d @ newline
          @ ''Width Enabled: '' @ (if enable_width d then ''true'' else ''false'') @ newline
          @ ''Height Enabled: '' @ (if enable_height d then ''true'' else ''false'') @ newline
          @ ''Batch Size: '' @ Number_toString ops (batch_size d) @ newline @ newline)"
  by (simp add: resizeInfo_header_def ResizeInfoEvent_value_def template_prop_def)

lemma megapixel_header_value:
  "megapixel_header ops (MegapixelReducerEvent_value d) =
     Inr (''Auto Megapixel Reducer Results:'' @ newline
          @ ''Target: '' @ Number_toString ops (max_megapixels d) @ ''MP'' @ newline
          @ ''Original: '' @ Number_toFixed ops (original_megapixels d) 2 @ ''MP'' @ newline
          @ ''Only Reduce Mode: '' @ (if only_reduce d then ''true'' else ''false'') @ newline
          @ ''Batch Size: '' @ Number_toString ops (batch_size d) @ newline @ newline)"
  by (simp add: megapixel_header_def MegapixelReducerEvent_value_def template_prop_def)

lemma String_includes_self: "String_includes s s"
  by (simp add: String_includes_def)

lemma was_resized_resize_entry:
  "was_resized (resize_entry_value info) = Inr (\<not> String_includes (new info) ''unchanged'')"
  using String_includes_self [of "''unchanged''"]
  by (auto simp add: was_resized_def resize_entry_value_def)

lemma was_resized_megapixel_entry:
  "was_resized (megapixel_entry_value info) = Inr (\<not> String_includes (new info) ''unchanged'')"
  using String_includes_self [of "''unchanged''"]
  by (auto simp add: was_resized_def megapixel_entry_value_def)


lemma digit_not_newline: "d < 10 \<Longrightarrow> digit d \<noteq> CHR 0x0A"
proof -
  assume "d < 10"
  then have "d \<in> {0, 1, 2, 3, 4, 5, 6, 7, 8, 9}" by auto
  then show ?thesis by (auto simp add: digit_def)
qed

lemma decimal_no_newline: "CHR 0x0A \<notin> set (decimal n)"
proof (induction n rule: decimal.induct)
  case (1 n)
  show ?case
  proof (cases "n < 10")
    case True
    then show ?thesis
      using digit_not_newline [of n] by (subst decimal.simps) auto
  next
    case False
    then show ?thesis
      using 1 digit_not_newline [of "n mod 10"] by (subst decimal.simps) auto
  qed
qed

lemma split_on_nonempty: "split_on c xs \<noteq> []"
  by (induction xs) (auto split: list.splits)

lemma split_on_append: "split_on c (xs @ c # ys) = split_on c xs @ split_on c ys"
  using split_on_nonempty [of c]
  by (induction xs) (auto split: list.splits)

lemma split_on_no_sep: "c \<notin> set xs \<Longrightarrow> split_on c xs = [xs]"
  by (induction xs) auto

lemma forEach_lines:
  assumes cb: "\<And>x i s. cb x i s = tryE (ln x i) (\<lambda>l. Inr (s @ l @ newline))"
    and ok: "\<And>x i. x \<in> set xs \<Longrightarrow> \<exists>l. ln x i = Inr l"
  shows "\<exists>lines. forEach cb xs s = Inr (s @ concat (map (\<lambda>l. l @ newline) lines))
           \<and> length lines = length xs
           \<and> (\<forall>i < length xs. ln (xs ! i) i = Inr (lines ! i))"
proof -
  define body where "body x i = (case ln x i of Inr l \<Rightarrow> l | Inl e \<Rightarrow> [])" for x i
  have ln: "ln x i = Inr (body x i)" if "x \<in> set xs" for x i
    using ok [OF that, of i] by (auto simp add: body_def)
  define lines where "lines = map (\<lambda>(x, j). body x j) (zip xs [0 ..< length xs])"
  have step: "cb x i s = Inr (s @ body x i @ newline)" if "x \<in> set xs" for x i s
    by (simp add: cb ln [OF that])
  have "forEach cb xs s = Inr (s @ concat (map (\<lambda>l. l @ newline) lines))"
    unfolding forEach_def
    by (subst forEach_from_appends [where g = "\<lambda>x i. body x i @ newline", OF step])
       (simp_all add: lines_def comp_def case_prod_unfold)
  moreover have "length lines = length xs"
    by (simp add: lines_def)
  moreover have "ln (xs ! i) i = Inr (lines ! i)" if "i < length xs" for i
    using that by (simp add: lines_def ln)
  ultimately show ?thesis by blast
qed

lemma resizeInfo_message_typed:
  "\<exists>header lines.
     resizeInfo_header ops (ResizeInfoEvent_value d) = Inr header \<and>
     resizeInfo_message ops (ResizeInfoEvent_value d) = Inr (header @ concat (map (\<lambda>l. l @ newline) lines)) \<and>
     length lines = length (resize_info d) \<and>
     (\<forall>i < length (resize_info d).
        resizeInfo_line ops (resize_entry_value (resize_info d ! i)) i = Inr (lines ! i))"
proof -
  obtain header where h: "resizeInfo_header ops (ResizeInfoEvent_value d) = Inr header"
    by (simp add: resizeInfo_header_value)
  have ri: "get_prop (ResizeInfoEvent_value d) ''resize_info''
      = Inr (JArr (map resize_entry_value (resize_info d)))"
    by (simp add: ResizeInfoEvent_value_def)
  have ok: "\<exists>l. resizeInfo_line ops x i = Inr l"
    if "x \<in> set (map resize_entry_value (resize_info d))" for x i
    using that by (auto simp add: resizeInfo_line_value)
  obtain lines where l:
    "forEach (resizeInfo_callback ops) (map resize_entry_value (resize_info d)) header
       = Inr (header @ concat (map (\<lambda>l. l @ newline) lines))"
    "length lines = length (map resize_entry_value (resize_info d))"
    "\<forall>i < length (map resize_entry_value (resize_info d)).
       resizeInfo_line ops (map resize_entry_value (resize_info d) ! i) i = Inr (lines ! i)"
    using forEach_lines [where cb = "resizeInfo_callback ops" and ln = "resizeInfo_line ops"
        and xs = "map resize_entry_value (resize_info d)" and s = header, OF _ ok]
    by (auto simp add: resizeInfo_callback_def)
  have "resizeInfo_message ops (ResizeInfoEvent_value d) = Inr (header @ concat (map (\<lambda>l. l @ newline) lines))"
    by (simp add: resizeInfo_message_def h ri l(1))
  with h l(2,3) show ?thesis by auto
qed

lemma megapixel_message_typed:
  "\<exists>header lines.
     megapixel_header ops (MegapixelReducerEvent_value d) = Inr header \<and>
     megapixel_message ops (MegapixelReducerEvent_value d) = Inr (header @ concat (map (\<lambda>l. l @ newline) lines)) \<and>
     length lines = length (resize_info d) \<and>
     (\<forall>i < length (resize_info d).
        megapixel_line ops (megapixel_entry_value (resize_info d ! i)) i = Inr (lines ! i))"
proof -
  obtain header where h: "megapixel_header ops (MegapixelReducerEvent_value d) = Inr header"
    by (simp add: megapixel_header_value)
  have ri: "get_prop (MegapixelReducerEvent_value d) ''resize_info''
      = Inr (JArr (map megapixel_entry_value (resize_info d)))"
    by (simp add: MegapixelReducerEvent_value_def)
  have ok: "\<exists>l. megapixel_line ops x i = Inr l"
    if "x \<in> set (map megapixel_entry_value (resize_info d))" for x i
    using that by (auto simp add: megapixel_line_value)
  obtain lines where l:
    "forEach (megapixel_callback ops) (map megapixel_entry_value (resize_info d)) header
       = Inr (header @ concat (map (\<lambda>l. l @ newline) lines))"
    "length lines = length (map megapixel_entry_value (resize_info d))"
    "\<forall>i < length (map megapixel_entry_value (resize_info d)).
       megapixel_line ops (map megapixel_entry_value (resize_info d) ! i) i = Inr (lines ! i)"
    using forEach_lines [where cb = "megapixel_callback ops" and ln = "megapixel_line ops"
        and xs = "map megapixel_entry_value (resize_info d)" and s = header, OF _ ok]
    by (auto simp add: megapixel_callback_def)
  have "megapixel_message ops (MegapixelReducerEvent_value d) = Inr (header @ concat (map (\<lambda>l. l @ newline) lines))"
    by (simp add: megapixel_message_def h ri l(1))
  with h l(2,3) show ?thesis by auto
qed

lemma some_map_total:
  assumes "\<And>x. x \<in> set xs \<Longrightarrow> p (f x) = Inr (q x)"
  shows "some p (map f xs) = Inr (\<exists>x \<in> set xs. q x)"
  using assms by (induction xs) auto

lemma any_resized_ResizeInfoEvent:
  "any_resized (ResizeInfoEvent_value d)
     = Inr (\<exists>info \<in> set (resize_info d). \<not> String_includes (new info) ''unchanged'')"
  by (simp add: any_resized_def ResizeInfoEvent_value_def some_map_total was_resized_resize_entry)

lemma any_resized_MegapixelReducerEvent:
  "any_resized (MegapixelReducerEvent_value d)
     = Inr (\<exists>info \<in> set (resize_info d). \<not> String_includes (new info) ''unchanged'')"
  by (simp add: any_resized_def MegapixelReducerEvent_value_def some_map_total was_resized_megapixel_entry)

lemma split_on_terminated:
  assumes "\<And>l. l \<in> set ls \<Longrightarrow> c \<notin> set l"
  shows "split_on c (concat (map (\<lambda>l. l @ [c]) ls)) = ls @ [[]]"
  using assms
proof (induction ls)
  case Nil
  show ?case by simp
next
  case (Cons l ls)
  have "split_on c (l @ c # concat (map (\<lambda>l. l @ [c]) ls)) = split_on c l @ split_on c (concat (map (\<lambda>l. l @ [c]) ls))"
    by (rule split_on_append)
  moreover have "split_on c l = [l]"
    using Cons.prems by (intro split_on_no_sep) simp
  moreover have "split_on c (concat (map (\<lambda>l. l @ [c]) ls)) = ls @ [[]]"
    using Cons.prems by (intro Cons.IH) simp
  ultimately show ?case by simp
qed

lemma split_on_line:
  "c \<notin> set l \<Longrightarrow> split_on c (l @ c # rest) = l # split_on c rest"
  by (simp add: split_on_append split_on_no_sep)

lemma resizeInfo_line_single_line:
  assumes "single_line_entry info"
  shows "CHR 0x0A \<notin> set (''Image '' @ decimal (index + 1) @ '': '' @ original info @ '' '' @ arrow @ '' ''
          @ new info @ '' (scale: '' @ scale info @ '')''
          @ (case constraint info of None \<Rightarrow> [] | Some c \<Rightarrow> if c = [] then [] else '' ['' @ c @ '']''))"
  using assms
  by (simp add: single_line_entry_def single_line_def decimal_no_newline arrow_def split: option.splits)

lemma ToString_primitive_text: "primitive v \<Longrightarrow> ToString ops v = Inr (primitive_text ops v)"
  by (cases v) auto

lemma get_prop_own_field: "is_object v \<Longrightarrow> get_prop v k = Inr (own_field v k)"
  by (cases v) auto

lemma template_prop_field_text:
  "is_object v \<Longrightarrow> primitive (own_field v k) \<Longrightarrow> template_prop ops v k = Inr (field_text ops v k)"
  by (simp add: template_prop_def get_prop_own_field ToString_primitive_text field_text_def)

lemma field_text_missing: "map_of qs k = None \<Longrightarrow> field_text ops (JObj qs) k = ''undefined''"
  by (simp add: field_text_def)

lemma resizeInfo_line_partial:
  assumes "partial_resize_entry info"
  shows "resizeInfo_line ops info index =
     Inr (''Image '' @ decimal (index + 1) @ '': '' @ field_text ops info ''original'' @ '' '' @ arrow
          @ '' '' @ field_text ops info ''new'' @ '' (scale: '' @ field_text ops info ''scale'' @ '')''
          @ bracketed_constraint ops info)"
proof -
  have obj: "is_object info"
    and p: "primitive (own_field info ''original'')" "primitive (own_field info ''new'')"
      "primitive (own_field info ''scale'')" "primitive (own_field info ''constraint'')"
    using assms by (simp_all add: partial_resize_entry_def primitive_fields_def)
  show ?thesis
    by (simp add: resizeInfo_line_def template_prop_field_text [OF obj] p
        get_prop_own_field [OF obj] bracketed_constraint_def Let_def)
qed

lemma megapixel_line_partial:
  assumes "partial_megapixel_entry info"
  shows "megapixel_line ops info index =
     Inr (''Image '' @ decimal (index + 1) @ '': '' @ field_text ops info ''original'' @ '' '' @ arrow
          @ '' '' @ field_text ops info ''new''
          @ '' ('' @ field_text ops info ''megapixels'' @ '') [scale: ''
          @ field_text ops info ''scale'' @ '']'')"
proof -
  have obj: "is_object info"
    and p: "primitive (own_field info ''original'')" "primitive (own_field info ''new'')"
      "primitive (own_field info ''megapixels'')" "primitive (own_field info ''scale'')"
    using assms by (simp_all add: partial_megapixel_entry_def primitive_fields_def)
  show ?thesis
    by (simp add: megapixel_line_def template_prop_field_text [OF obj] p Let_def)
qed

lemma was_resized_partial:
  assumes "is_object info" and "primitive (own_field info ''new'')"
  shows "was_resized info =
     (case own_field info ''new'' of
        JStr s \<Rightarrow> Inr (\<not> String_includes s ''unchanged'')
      | _ \<Rightarrow> Inl TypeError)"
  using assms(2) String_includes_self [of "''unchanged''"]
  by (cases "own_field info ''new''")
     (auto simp add: was_resized_def get_prop_own_field [OF assms(1)])

lemma some_was_resized_partial:
  assumes "\<And>info. info \<in> set infos \<Longrightarrow> is_object info \<and> primitive (own_field info ''new'')"
  shows "(scan_completes infos \<longrightarrow> (\<exists>b. some was_resized infos = Inr b))
       \<and> (\<not> scan_completes infos \<longrightarrow> some was_resized infos = Inl TypeError)"
  using assms
proof (induction infos)
  case Nil
  show ?case by auto
next
  case (Cons info infos)
  have w: "was_resized info =
     (case own_field info ''new'' of
        JStr s \<Rightarrow> Inr (\<not> String_includes s ''unchanged'')
      | _ \<Rightarrow> Inl TypeError)"
    using Cons.prems [of info] by (intro was_resized_partial) simp_all
  have ih: "(scan_completes infos \<longrightarrow> (\<exists>b. some was_resized infos = Inr b))
       \<and> (\<not> scan_completes infos \<longrightarrow> some was_resized infos = Inl TypeError)"
    using Cons.prems by (intro Cons.IH) simp
  show ?case
    using ih by (cases "own_field info ''new''") (auto simp add: w)
qed

lemma entries_receiver:
  "array_receiver v = (case entries_of v of None \<Rightarrow> Inl TypeError | Some infos \<Rightarrow> Inr infos)"
  by (cases v) auto

lemma resizeInfoHandler_partial:
  assumes "partial_ResizeInfoEvent data"
  shows "fst (resizeInfoHandler ops \<lparr>detail = data\<rparr> console)
           = (if resizeInfo_completes data then Inr () else Inl TypeError)"
    and "own_field data ''resize_info'' = JArr infos \<Longrightarrow>
         \<exists>lines. length lines = length infos \<and>
           resizeInfo_message ops data =
             Inr (''Aspect Ratio Resizer Results:'' @ newline
                  @ ''Constraints: '' @ field_text ops data ''constraints'' @ newline
                  @ ''Resize Mode: '' @ field_text ops data ''resize_mode'' @ newline
                  @ ''Width Enabled: '' @ field_text ops data ''enable_width'' @ newline
                  @ ''Height Enabled: '' @ field_text ops data ''enable_height'' @ newline
                  @ ''Batch Size: '' @ field_text ops data ''batch_size'' @ newline @ newline
                  @ concat (map (\<lambda>l. l @ newline) lines)) \<and>
           (\<forall>i < length infos.
              lines ! i =
                ''Image '' @ decimal (i + 1) @ '': '' @ field_text ops (infos ! i) ''original''
                @ '' '' @ arrow @ '' '' @ field_text ops (infos ! i) ''new''
                @ '' (scale: '' @ field_text ops (infos ! i) ''scale'' @ '')''
                @ bracketed_constraint ops (infos ! i))"
proof -
  let ?header = "''Aspect Ratio Resizer Results:'' @ newline
                  @ ''Constraints: '' @ field_text ops data ''constraints'' @ newline
                  @ ''Resize Mode: '' @ field_text ops data ''resize_mode'' @ newline
                  @ ''Width Enabled: '' @ field_text ops data ''enable_width'' @ newline
                  @ ''Height Enabled: '' @ field_text ops data ''enable_height'' @ newline
                  @ ''Batch Size: '' @ field_text ops data ''batch_size'' @ newline @ newline"
  have obj: "is_object data"
    and p: "primitive (own_field data ''constraints'')" "primitive (own_field data ''resize_mode'')"
      "primitive (own_field data ''enable_width'')" "primitive (own_field data ''enable_height'')"
      "primitive (own_field data ''batch_size'')"
    and es: "case entries_of (own_field data ''resize_info'') of
               None \<Rightarrow> True | Some infos \<Rightarrow> list_all partial_resize_entry infos"
    using assms by (simp_all add: partial_ResizeInfoEvent_def primitive_fields_def)
  have h: "resizeInfo_header ops data = Inr ?header"
    by (simp add: resizeInfo_header_def template_prop_field_text [OF obj] p)
  have built: "\<exists>lines. length lines = length infos \<and>
           resizeInfo_message ops data = Inr (?header @ concat (map (\<lambda>l. l @ newline) lines)) \<and>
           (\<forall>i < length infos.
              lines ! i =
                ''Image '' @ decimal (i + 1) @ '': '' @ field_text ops (infos ! i) ''original''
                @ '' '' @ arrow @ '' '' @ field_text ops (infos ! i) ''new''
                @ '' (scale: '' @ field_text ops (infos ! i) ''scale'' @ '')''
                @ bracketed_constraint ops (infos ! i))"
    if ri: "own_field data ''resize_info'' = JArr infos" for infos
  proof -
    have pe: "partial_resize_entry x" if "x \<in> set infos" for x
      using es that by (simp add: ri list_all_iff)
    have ok: "\<exists>l. resizeInfo_line ops x i = Inr l" if "x \<in> set infos" for x i
      by (simp add: resizeInfo_line_partial [OF pe [OF that]])
    obtain lines where l:
      "forEach (resizeInfo_callback ops) infos ?header
         = Inr (?header @ concat (map (\<lambda>l. l @ newline) lines))"
      "length lines = length infos"
      "\<forall>i < length infos. resizeInfo_line ops (infos ! i) i = Inr (lines ! i)"
      using forEach_lines [where cb = "resizeInfo_callback ops" and ln = "resizeInfo_line ops"
          and xs = infos and s = ?header, OF _ ok]
      by (auto simp add: resizeInfo_callback_def)
    have m: "resizeInfo_message ops data = Inr (?header @ concat (map (\<lambda>l. l @ newline) lines))"
      by (simp only: resizeInfo_message_def h tryE_Inr get_prop_own_field [OF obj] ri
          array_receiver.simps l(1))
    have "lines ! i =
                ''Image '' @ decimal (i + 1) @ '': '' @ field_text ops (infos ! i) ''original''
                @ '' '' @ arrow @ '' '' @ field_text ops (infos ! i) ''new''
                @ '' (scale: '' @ field_text ops (infos ! i) ''scale'' @ '')''
                @ bracketed_constraint ops (infos ! i)"
      if "i < length infos" for i
      using l(3) that resizeInfo_line_partial [OF pe [of "infos ! i"], of ops i] by simp
    with m l(2) show ?thesis by blast
  qed
  show "own_field data ''resize_info'' = JArr infos \<Longrightarrow>
         \<exists>lines. length lines = length infos \<and>
           resizeInfo_message ops data =
             Inr (''Aspect Ratio Resizer Results:'' @ newline
                  @ ''Constraints: '' @ field_text ops data ''constraints'' @ newline
                  @ ''Resize Mode: '' @ field_text ops data ''resize_mode'' @ newline
                  @ ''Width Enabled: '' @ field_text ops data ''enable_width'' @ newline
                  @ ''Height Enabled: '' @ field_text ops data ''enable_height'' @ newline
                  @ ''Batch Size: '' @ field_text ops data ''batch_size'' @ newline @ newline
                  @ concat (map (\<lambda>l. l @ newline) lines)) \<and>
           (\<forall>i < length infos.
              lines ! i =
                ''Image '' @ decimal (i + 1) @ '': '' @ field_text ops (infos ! i) ''original''
                @ '' '' @ arrow @ '' '' @ field_text ops (infos ! i) ''new''
                @ '' (scale: '' @ field_text ops (infos ! i) ''scale'' @ '')''
                @ bracketed_constraint ops (infos ! i))"
    using built [of infos] by simp
  show "fst (resizeInfoHandler ops \<lparr>detail = data\<rparr> console)
           = (if resizeInfo_completes data then Inr () else Inl TypeError)"
  proof (cases "entries_of (own_field data ''resize_info'')")
    case None
    then have "resizeInfo_message ops data = Inl TypeError"
      by (simp add: resizeInfo_message_def h get_prop_own_field [OF obj] entries_receiver)
    then show ?thesis
      using None by (simp add: resizeInfoHandler_def resizeInfo_completes_def)
  next
    case (Some entries)
    then have ri: "own_field data ''resize_info'' = JArr entries"
      by (cases "own_field data ''resize_info''") simp_all
    obtain message where m: "resizeInfo_message ops data = Inr message"
      using built [OF ri] by blast
    have pe: "is_object x \<and> primitive (own_field x ''new'')" if "x \<in> set entries" for x
      using es that by (simp add: ri list_all_iff partial_resize_entry_def primitive_fields_def)
    have a: "any_resized data = some was_resized entries"
      by (simp add: any_resized_def get_prop_own_field [OF obj] ri)
    show ?thesis
    proof (cases "scan_completes entries")
      case True
      then obtain b where "some was_resized entries = Inr b"
        using some_was_resized_partial [OF pe] by blast
      then show ?thesis
        using True by (simp add: resizeInfoHandler_def m a Let_def resizeInfo_completes_def ri)
    next
      case False
      then have "some was_resized entries = Inl TypeError"
        using some_was_resized_partial [OF pe] by blast
      then show ?thesis
        using False by (simp add: resizeInfoHandler_def m a Let_def resizeInfo_completes_def ri)
    qed
  qed
qed

lemma toFixed_call_not_number: "\<not> is_number v \<Longrightarrow> toFixed_call ops v d = Inl TypeError"
  by (cases v) auto

lemma megapixelReducerHandler_partial:
  assumes "partial_MegapixelReducerEvent data"
  shows "fst (megapixelReducerHandler ops \<lparr>detail = data\<rparr> console)
           = (if megapixel_completes data then Inr () else Inl TypeError)"
    and "own_field data ''resize_info'' = JArr infos \<Longrightarrow>
         own_field data ''original_megapixels'' = JNum n \<Longrightarrow>
         \<exists>lines. length lines = length infos \<and>
           megapixel_message ops data =
             Inr (''Auto Megapixel Reducer Results:'' @ newline
                  @ ''Target: '' @ field_text ops data ''max_megapixels'' @ ''MP'' @ newline
                  @ ''Original: '' @ Number_toFixed ops n 2 @ ''MP'' @ newline
                  @ ''Only Reduce Mode: '' @ field_text ops data ''only_reduce'' @ newline
                  @ ''Batch Size: '' @ field_text ops data ''batch_size'' @ newline @ newline
                  @ concat (map (\<lambda>l. l @ newline) lines)) \<and>
           (\<forall>i < length infos.
              lines ! i =
                ''Image '' @ decimal (i + 1) @ '': '' @ field_text ops (infos ! i) ''original''
                @ '' '' @ arrow @ '' '' @ field_text ops (infos ! i) ''new''
                @ '' ('' @ field_text ops (infos ! i) ''megapixels'' @ '') [scale: ''
                @ field_text ops (infos ! i) ''scale'' @ '']'')"
proof -
  have obj: "is_object data"
    and p: "primitive (own_field data ''max_megapixels'')" "primitive (own_field data ''only_reduce'')"
      "primitive (own_field data ''batch_size'')"
    and es: "case entries_of (own_field data ''resize_info'') of
               None \<Rightarrow> True | Some infos \<Rightarrow> list_all partial_megapixel_entry infos"
    using assms by (simp_all add: partial_MegapixelReducerEvent_def primitive_fields_def)
  have built: "\<exists>lines. length lines = length infos \<and>
           megapixel_message ops data =
             Inr ((''Auto Megapixel Reducer Results:'' @ newline
                  @ ''Target: '' @ field_text ops data ''max_megapixels'' @ ''MP'' @ newline
                  @ ''Original: '' @ Number_toFixed ops n 2 @ ''MP'' @ newline
                  @ ''Only Reduce Mode: '' @ field_text ops data ''only_reduce'' @ newline
                  @ ''Batch Size: '' @ field_text ops data ''batch_size'' @ newline @ newline)
                  @ concat (map (\<lambda>l. l @ newline) lines)) \<and>
           (\<forall>i < length infos.
              lines ! i =
                ''Image '' @ decimal (i + 1) @ '': '' @ field_text ops (infos ! i) ''original''
                @ '' '' @ arrow @ '' '' @ field_text ops (infos ! i) ''new''
                @ '' ('' @ field_text ops (infos ! i) ''megapixels'' @ '') [scale: ''
                @ field_text ops (infos ! i) ''scale'' @ '']'')"
    if ri: "own_field data ''resize_info'' = JArr infos"
      and om: "own_field data ''original_megapixels'' = JNum n" for infos n
  proof -
    let ?header = "''Auto Megapixel Reducer Results:'' @ newline
                  @ ''Target: '' @ field_text ops data ''max_megapixels'' @ ''MP'' @ newline
                  @ ''Original: '' @ Number_toFixed ops n 2 @ ''MP'' @ newline
                  @ ''Only Reduce Mode: '' @ field_text ops data ''only_reduce'' @ newline
                  @ ''Batch Size: '' @ field_text ops data ''batch_size'' @ newline @ newline"
    have h: "megapixel_header ops data = Inr ?header"
      by (simp add: megapixel_header_def template_prop_field_text [OF obj] p
          get_prop_own_field [OF obj] om)
    have pe: "partial_megapixel_entry x" if "x \<in> set infos" for x
      using es that by (simp add: ri list_all_iff)
    have ok: "\<exists>l. megapixel_line ops x i = Inr l" if "x \<in> set infos" for x i
      by (simp add: megapixel_line_partial [OF pe [OF that]])
    obtain lines where l:
      "forEach (megapixel_callback ops) infos ?header
         = Inr (?header @ concat (map (\<lambda>l. l @ newline) lines))"
      "length lines = length infos"
      "\<forall>i < length infos. megapixel_line ops (infos ! i) i = Inr (lines ! i)"
      using forEach_lines [where cb = "megapixel_callback ops" and ln = "megapixel_line ops"
          and xs = infos and s = ?header, OF _ ok]
      by (auto simp add: megapixel_callback_def)
    have m: "megapixel_message ops data = Inr (?header @ concat (map (\<lambda>l. l @ newline) lines))"
      by (simp only: megapixel_message_def h tryE_Inr get_prop_own_field [OF obj] ri
          array_receiver.simps l(1))
    have "lines ! i =
                ''Image '' @ decimal (i + 1) @ '': '' @ field_text ops (infos ! i) ''original''
                @ '' '' @ arrow @ '' '' @ field_text ops (infos ! i) ''new''
                @ '' ('' @ field_text ops (infos ! i) ''megapixels'' @ '') [scale: ''
                @ field_text ops (infos ! i) ''scale'' @ '']''"
      if "i < length infos" for i
      using l(3) that megapixel_line_partial [OF pe [of "infos ! i"], of ops i] by simp
    with m l(2) show ?thesis by blast
  qed
  show "own_field data ''resize_info'' = JArr infos \<Longrightarrow>
         own_field data ''original_megapixels'' = JNum n \<Longrightarrow>
         \<exists>lines. length lines = length infos \<and>
           megapixel_message ops data =
             Inr (''Auto Megapixel Reducer Results:'' @ newline
                  @ ''Target: '' @ field_text ops data ''max_megapixels'' @ ''MP'' @ newline
                  @ ''Original: '' @ Number_toFixed ops n 2 @ ''MP'' @ newline
                  @ ''Only Reduce Mode: '' @ field_text ops data ''only_reduce'' @ newline
                  @ ''Batch Size: '' @ field_text ops data ''batch_size'' @ newline @ newline
                  @ concat (map (\<lambda>l. l @ newline) lines)) \<and>
           (\<forall>i < length infos.
              lines ! i =
                ''Image '' @ decimal (i + 1) @ '': '' @ field_text ops (infos ! i) ''original''
                @ '' '' @ arrow @ '' '' @ field_text ops (infos ! i) ''new''
                @ '' ('' @ field_text ops (infos ! i) ''megapixels'' @ '') [scale: ''
                @ field_text ops (infos ! i) ''scale'' @ '']'')"
    using built [of infos n] by simp
  show "fst (megapixelReducerHandler ops \<lparr>detail = data\<rparr> console)
           = (if megapixel_completes data then Inr () else Inl TypeError)"
  proof (cases "is_number (own_field data ''original_megapixels'')")
    case False
    then have "megapixel_header ops data = Inl TypeError"
      by (simp add: megapixel_header_def template_prop_field_text [OF obj] p
          get_prop_own_field [OF obj] toFixed_call_not_number)
    then have "megapixel_message ops data = Inl TypeError"
      by (simp add: megapixel_message_def)
    then show ?thesis
      using False by (simp add: megapixelReducerHandler_def megapixel_completes_def)
  next
    case number: True
    then obtain n where om: "own_field data ''original_megapixels'' = JNum n"
      by (cases "own_field data ''original_megapixels''") simp_all
    have h: "\<exists>header. megapixel_header ops data = Inr header"
      by (simp add: megapixel_header_def template_prop_field_text [OF obj] p
          get_prop_own_field [OF obj] om)
    show ?thesis
    proof (cases "entries_of (own_field data ''resize_info'')")
      case None
      then have "megapixel_message ops data = Inl TypeError"
        using h by (auto simp add: megapixel_message_def get_prop_own_field [OF obj] entries_receiver)
      then show ?thesis
        using None
        by (simp add: megapixelReducerHandler_def megapixel_completes_def resizeInfo_completes_def)
    next
      case (Some entries)
      then have ri: "own_field data ''resize_info'' = JArr entries"
        by (cases "own_field data ''resize_info''") simp_all
      obtain message where m: "megapixel_message ops data = Inr message"
        using built [OF ri om] by blast
      have pe: "is_object x \<and> primitive (own_field x ''new'')" if "x \<in> set entries" for x
        using es that by (simp add: ri list_all_iff partial_megapixel_entry_def primitive_fields_def)
      have a: "any_resized data = some was_resized entries"
        by (simp add: any_resized_def get_prop_own_field [OF obj] ri)
      show ?thesis
      proof (cases "scan_completes entries")
        case True
        then obtain b where "some was_resized entries = Inr b"
          using some_was_resized_partial [OF pe] by blast
        then show ?thesis
          using True number
          by (simp add: megapixelReducerHandler_def m a Let_def megapixel_completes_def
              resizeInfo_completes_def ri)
      next
        case False
        then have "some was_resized entries = Inl TypeError"
          using some_was_resized_partial [OF pe] by blast
        then show ?thesis
          using False
          by (simp add: megapixelReducerHandler_def m a Let_def megapixel_completes_def
              resizeInfo_completes_def ri)
      qed
    qed
  qed
qed

section \<open>The event display shim: properties\<close>

lemma line_in_split_on:
  assumes "c \<notin> set l"
  shows "l \<in> set (split_on c (h @ c # (l @ c # t)))"
proof -
  have "split_on c (h @ c # (l @ c # t)) = split_on c h @ [l] @ split_on c t"
    by (simp only: split_on_append split_on_no_sep [OF assms])
  then show ?thesis by simp
qed

text \<open>
  C1, as amended. When at least one entry's \<open>new\<close> does not contain the text
  \<open>unchanged\<close>, each handler completes normally and makes two \<open>console.log\<close> calls: the
  label with the raw payload, then the formatted message it built.
\<close>

theorem resized_entry_logs_message:
  "((\<exists>info \<in> set (resize_info d). \<not> String_includes (new info) ''unchanged'') \<longrightarrow>
      (\<exists>message. resizeInfo_message ops (ResizeInfoEvent_value d) = Inr message \<and>
         resizeInfoHandler ops \<lparr>detail = ResizeInfoEvent_value d\<rparr> console
           = (Inr (), console @ [[JStr ''Aspect Ratio Resizer:'', ResizeInfoEvent_value d],
                                 [JStr message]])))
   \<and> ((\<exists>info \<in> set (resize_info m). \<not> String_includes (new info) ''unchanged'') \<longrightarrow>
      (\<exists>message. megapixel_message ops (MegapixelReducerEvent_value m) = Inr message \<and>
         megapixelReducerHandler ops \<lparr>detail = MegapixelReducerEvent_value m\<rparr> console
           = (Inr (), console @ [[JStr ''Auto Megapixel Reducer:'', MegapixelReducerEvent_value m],
                                 [JStr message]])))"
proof (intro conjI impI)
  assume a: "\<exists>info \<in> set (resize_info d). \<not> String_includes (new info) ''unchanged''"
  obtain message where msg: "resizeInfo_message ops (ResizeInfoEvent_value d) = Inr message"
    using resizeInfo_message_typed [of ops d] by blast
  have "any_resized (ResizeInfoEvent_value d) = Inr True"
    using a by (simp add: any_resized_ResizeInfoEvent)
  then have "resizeInfoHandler ops \<lparr>detail = ResizeInfoEvent_value d\<rparr> console
           = (Inr (), console @ [[JStr ''Aspect Ratio Resizer:'', ResizeInfoEvent_value d],
                                 [JStr message]])"
    by (simp add: resizeInfoHandler_def msg)
  with msg show "\<exists>message. resizeInfo_message ops (ResizeInfoEvent_value d) = Inr message \<and>
         resizeInfoHandler ops \<lparr>detail = ResizeInfoEvent_value d\<rparr> console
           = (Inr (), console @ [[JStr ''Aspect Ratio Resizer:'', ResizeInfoEvent_value d],
                                 [JStr message]])"
    by blast
next
  assume a: "\<exists>info \<in> set (resize_info m). \<not> String_includes (new info) ''unchanged''"
  obtain message where msg: "megapixel_message ops (MegapixelReducerEvent_value m) = Inr message"
    using megapixel_message_typed [of ops m] by blast
  have "any_resized (MegapixelReducerEvent_value m) = Inr True"
    using a by (simp add: any_resized_MegapixelReducerEvent)
  then have "megapixelReducerHandler ops \<lparr>detail = MegapixelReducerEvent_value m\<rparr> console
           = (Inr (), console @ [[JStr ''Auto Megapixel Reducer:'', MegapixelReducerEvent_value m],
                                 [JStr message]])"
    by (simp add: megapixelReducerHandler_def msg)
  with msg show "\<exists>message. megapixel_message ops (MegapixelReducerEvent_value m) = Inr message \<and>
         megapixelReducerHandler ops \<lparr>detail = MegapixelReducerEvent_value m\<rparr> console
           = (Inr (), console @ [[JStr ''Auto Megapixel Reducer:'', MegapixelReducerEvent_value m],
                                 [JStr message]])"
    by blast
qed

text \<open>Both handlers on a batch of one resized image.\<close>

theorem resized_entry_logs_message_witness:
  "map new (resize_info example_event) = [''1024x576'']
   \<and> \<not> String_includes ''1024x576'' ''unchanged''
   \<and> map new (resize_info reduced_event) = [''1884x1060'']
   \<and> \<not> String_includes ''1884x1060'' ''unchanged''
   \<and> (\<exists>message.
         resizeInfo_message integer_ops (ResizeInfoEvent_value example_event) = Inr message \<and>
         resizeInfoHandler integer_ops \<lparr>detail = ResizeInfoEvent_value example_event\<rparr> []
           = (Inr (), [[JStr ''Aspect Ratio Resizer:'', ResizeInfoEvent_value example_event],
                       [JStr message]]))
   \<and> (\<exists>message.
         megapixel_message integer_ops (MegapixelReducerEvent_value reduced_event) = Inr message \<and>
         megapixelReducerHandler integer_ops \<lparr>detail = MegapixelReducerEvent_value reduced_event\<rparr> []
           = (Inr (), [[JStr ''Auto Megapixel Reducer:'', MegapixelReducerEvent_value reduced_event],
                       [JStr message]]))"
proof -
  have a: "\<not> String_includes ''1024x576'' ''unchanged''" "\<not> String_includes ''1884x1060'' ''unchanged''"
    by (simp_all add: String_includes_def sublist_code)
  have b: "map new (resize_info example_event) = [''1024x576'']"
    "map new (resize_info reduced_event) = [''1884x1060'']"
    by (simp_all add: example_event_def reduced_event_def)
  have c: "\<exists>info \<in> set (resize_info example_event). \<not> String_includes (new info) ''unchanged''"
    "\<exists>info \<in> set (resize_info reduced_event). \<not> String_includes (new info) ''unchanged''"
    using a by (simp_all add: example_event_def reduced_event_def)
  show ?thesis
    using a b c resized_entry_logs_message
      [where d = example_event and m = reduced_event and ops = integer_ops and console = "[]"]
    by simp
qed

text \<open>
  C1 as stated fails: \<open>512x512 (unchanged)\<close> is a string different from \<open>unchanged\<close>, yet
  it contains that text, the second test of the source's condition fails, and only the
  raw payload is logged.
\<close>

theorem new_containing_unchanged_counterexample:
  "map new (resize_info marked_unchanged_event) = [''512x512 (unchanged)'']
   \<and> ''512x512 (unchanged)'' \<noteq> ''unchanged''
   \<and> resizeInfoHandler integer_ops \<lparr>detail = ResizeInfoEvent_value marked_unchanged_event\<rparr> []
       = (Inr (), [[JStr ''Aspect Ratio Resizer:'', ResizeInfoEvent_value marked_unchanged_event]])"
proof -
  obtain message where
    msg: "resizeInfo_message integer_ops (ResizeInfoEvent_value marked_unchanged_event) = Inr message"
    using resizeInfo_message_typed [of integer_ops marked_unchanged_event] by blast
  have "any_resized (ResizeInfoEvent_value marked_unchanged_event) = Inr False"
    by (simp add: any_resized_ResizeInfoEvent marked_unchanged_event_def String_includes_def
        sublist_code)
  then have "resizeInfoHandler integer_ops \<lparr>detail = ResizeInfoEvent_value marked_unchanged_event\<rparr> []
       = (Inr (), [[JStr ''Aspect Ratio Resizer:'', ResizeInfoEvent_value marked_unchanged_event]])"
    by (simp add: resizeInfoHandler_def msg)
  then show ?thesis
    by (simp add: marked_unchanged_event_def)
qed

text \<open>
  C2, as amended. For a well-formed ResizeInfoEvent with N entries in which no string
  (\<open>constraints\<close>, \<open>resize_mode\<close>, the rendered \<open>batch_size\<close>, and every entry's \<open>original\<close>,
  \<open>new\<close>, \<open>scale\<close> and \<open>constraint\<close>) holds a line break, the lines of the message are the six
  header lines, an empty line, the image lines and a last empty line; there are exactly
  N image lines, and the i-th is \<open>Image i+1:\<close> followed by the entry's \<open>original\<close>, the
  arrow, the entry's \<open>new\<close>, the scale and the bracketed constraint.
\<close>

theorem resizeInfo_message_image_lines:
  assumes "single_line_event ops d"
  shows "\<exists>message.
     resizeInfo_message ops (ResizeInfoEvent_value d) = Inr message \<and>
     lines_of message =
       [''Aspect Ratio Resizer Results:'',
        ''Constraints: '' @ constraints d,
        ''Resize Mode: '' @ resize_mode d,
        ''Width Enabled: '' @ (if enable_width d then ''true'' else ''false''),
        ''Height Enabled: '' @ (if enable_height d then ''true'' else ''false''),
        ''Batch Size: '' @ Number_toString ops (batch_size d),
        []] @ image_lines message @ [[]] \<and>
     length (image_lines message) = length (resize_info d) \<and>
     (\<forall>i < length (resize_info d).
        image_lines message ! i =
          ''Image '' @ decimal (i + 1) @ '': '' @ original (resize_info d ! i) @ '' '' @ arrow @ '' ''
          @ new (resize_info d ! i) @ '' (scale: '' @ scale (resize_info d ! i) @ '')''
          @ (case constraint (resize_info d ! i) of None \<Rightarrow> []
             | Some c \<Rightarrow> if c = [] then [] else '' ['' @ c @ '']''))"
proof -
  obtain header lines where
    h: "resizeInfo_header ops (ResizeInfoEvent_value d) = Inr header" and
    m: "resizeInfo_message ops (ResizeInfoEvent_value d)
          = Inr (header @ concat (map (\<lambda>l. l @ newline) lines))" and
    len: "length lines = length (resize_info d)" and
    nth: "\<forall>i < length (resize_info d).
            resizeInfo_line ops (resize_entry_value (resize_info d ! i)) i = Inr (lines ! i)"
    using resizeInfo_message_typed [of ops d] by blast
  have sl: "single_line (constraints d)" "single_line (resize_mode d)"
    "single_line (Number_toString ops (batch_size d))"
    and entries: "\<And>info. info \<in> set (resize_info d) \<Longrightarrow> single_line_entry info"
    using assms by (simp_all add: single_line_event_def list_all_iff)
  have line: "lines ! i =
          ''Image '' @ decimal (i + 1) @ '': '' @ original (resize_info d ! i) @ '' '' @ arrow @ '' ''
          @ new (resize_info d ! i) @ '' (scale: '' @ scale (resize_info d ! i) @ '')''
          @ (case constraint (resize_info d ! i) of None \<Rightarrow> []
             | Some c \<Rightarrow> if c = [] then [] else '' ['' @ c @ '']'')"
    if "i < length (resize_info d)" for i
    using nth that by (simp add: resizeInfo_line_value)
  have no_break: "CHR 0x0A \<notin> set l" if "l \<in> set lines" for l
  proof -
    from that obtain i where i: "i < length (resize_info d)" and l: "l = lines ! i"
      by (auto simp add: in_set_conv_nth len)
    show ?thesis
      unfolding l line [OF i]
      by (rule resizeInfo_line_single_line) (simp add: entries i)
  qed
  have image: "prefix ''Image '' l" if "l \<in> set lines" for l
  proof -
    from that obtain i where i: "i < length (resize_info d)" and l: "l = lines ! i"
      by (auto simp add: in_set_conv_nth len)
    show ?thesis
      unfolding l line [OF i] by simp
  qed
  let ?message = "header @ concat (map (\<lambda>l. l @ newline) lines)"
  have body: "split_on (CHR 0x0A) (concat (map (\<lambda>l. l @ newline) lines)) = lines @ [[]]"
    unfolding newline_def using no_break by (intro split_on_terminated) simp
  have hd: "header = ''Aspect Ratio Resizer Results:'' @ CHR 0x0A #
      (''Constraints: '' @ constraints d) @ CHR 0x0A #
      (''Resize Mode: '' @ resize_mode d) @ CHR 0x0A #
      (''Width Enabled: '' @ (if enable_width d then ''true'' else ''false'')) @ CHR 0x0A #
      (''Height Enabled: '' @ (if enable_height d then ''true'' else ''false'')) @ CHR 0x0A #
      (''Batch Size: '' @ Number_toString ops (batch_size d)) @ CHR 0x0A #
      [] @ CHR 0x0A # []"
    using h by (simp add: resizeInfo_header_value newline_def)
  have lo: "lines_of ?message =
       [''Aspect Ratio Resizer Results:'',
        ''Constraints: '' @ constraints d,
        ''Resize Mode: '' @ resize_mode d,
        ''Width Enabled: '' @ (if enable_width d then ''true'' else ''false''),
        ''Height Enabled: '' @ (if enable_height d then ''true'' else ''false''),
        ''Batch Size: '' @ Number_toString ops (batch_size d),
        []] @ lines @ [[]]"
  proof -
    have "?message = ''Aspect Ratio Resizer Results:'' @ CHR 0x0A #
      ((''Constraints: '' @ constraints d) @ CHR 0x0A #
      ((''Resize Mode: '' @ resize_mode d) @ CHR 0x0A #
      ((''Width Enabled: '' @ (if enable_width d then ''true'' else ''false'')) @ CHR 0x0A #
      ((''Height Enabled: '' @ (if enable_height d then ''true'' else ''false'')) @ CHR 0x0A #
      ((''Batch Size: '' @ Number_toString ops (batch_size d)) @ CHR 0x0A #
      ([] @ CHR 0x0A # concat (map (\<lambda>l. l @ newline) lines)))))))"
      unfolding hd by simp
    then show ?thesis
      unfolding lines_of_def
      using sl
      by (simp only: split_on_line body) (simp add: split_on_line body single_line_def)
  qed
  have il: "image_lines ?message = lines"
    unfolding image_lines_def lo using image by (simp add: filter_id_conv)
  show ?thesis
    using m lo il len line by (intro exI [of _ ?message]) simp
qed

text \<open>The example event has one image line.\<close>

theorem resizeInfo_message_image_lines_witness:
  "single_line_event integer_ops example_event
   \<and> length (resize_info example_event) = 1
   \<and> (\<exists>message.
         resizeInfo_message integer_ops (ResizeInfoEvent_value example_event) = Inr message \<and>
         length (image_lines message) = 1 \<and>
         image_lines message ! 0 = ''Image 1: 1920x1080 '' @ arrow @ '' 1024x576 (scale: 0.533)'')"
proof -
  have a: "single_line_event integer_ops example_event"
    by (simp add: single_line_event_def single_line_entry_def single_line_def example_event_def
        integer_ops_def decimal.simps digit_def)
  have len: "length (resize_info example_event) = 1"
    and e: "resize_info example_event ! 0
      = \<lparr>original = ''1920x1080'', new = ''1024x576'', scale = ''0.533'', constraint = None\<rparr>"
    by (simp_all add: example_event_def)
  show ?thesis
    using a resizeInfo_message_image_lines [OF a]
    by (simp add: len e decimal.simps digit_def) blast
qed

text \<open>
  C2 as stated fails: \<open>constraints\<close> is interpolated verbatim, so a line break in it puts
  further lines into the message, and a well-formed event with one entry can show two
  image lines.
\<close>

theorem line_break_in_constraints_counterexample:
  "length (resize_info line_break_event) = 1
   \<and> map_sum id image_lines
        (resizeInfo_message integer_ops (ResizeInfoEvent_value line_break_event))
       = Inr [''Image 9: as the backend wrote it'',
              ''Image 1: 1920x1080 '' @ arrow @ '' 1024x576 (scale: 0.533)'']"
  by (simp add: line_break_event_def resizeInfo_message_def resizeInfo_header_def template_prop_def
      ResizeInfoEvent_value_def resize_entry_value_def forEach_def resizeInfo_callback_def
      resizeInfo_line_def integer_ops_def decimal.simps digit_def image_lines_def lines_of_def
      newline_def arrow_def)

text \<open>
  C3. When every entry's \<open>new\<close> equals \<open>unchanged\<close>, each handler completes normally and
  makes exactly one \<open>console.log\<close> call, the one with the label and the raw payload.
\<close>

theorem all_unchanged_logs_event_only:
  "((\<forall>info \<in> set (resize_info d). new info = ''unchanged'') \<longrightarrow>
      resizeInfoHandler ops \<lparr>detail = ResizeInfoEvent_value d\<rparr> console
        = (Inr (), console @ [[JStr ''Aspect Ratio Resizer:'', ResizeInfoEvent_value d]]))
   \<and> ((\<forall>info \<in> set (resize_info m). new info = ''unchanged'') \<longrightarrow>
      megapixelReducerHandler ops \<lparr>detail = MegapixelReducerEvent_value m\<rparr> console
        = (Inr (), console @ [[JStr ''Auto Megapixel Reducer:'', MegapixelReducerEvent_value m]]))"
proof (intro conjI impI)
  assume a: "\<forall>info \<in> set (resize_info d). new info = ''unchanged''"
  obtain message where msg: "resizeInfo_message ops (ResizeInfoEvent_value d) = Inr message"
    using resizeInfo_message_typed [of ops d] by blast
  have "any_resized (ResizeInfoEvent_value d) = Inr False"
    using a by (simp add: any_resized_ResizeInfoEvent String_includes_self)
  then show "resizeInfoHandler ops \<lparr>detail = ResizeInfoEvent_value d\<rparr> console
        = (Inr (), console @ [[JStr ''Aspect Ratio Resizer:'', ResizeInfoEvent_value d]])"
    by (simp add: resizeInfoHandler_def msg)
next
  assume a: "\<forall>info \<in> set (resize_info m). new info = ''unchanged''"
  obtain message where msg: "megapixel_message ops (MegapixelReducerEvent_value m) = Inr message"
    using megapixel_message_typed [of ops m] by blast
  have "any_resized (MegapixelReducerEvent_value m) = Inr False"
    using a by (simp add: any_resized_MegapixelReducerEvent String_includes_self)
  then show "megapixelReducerHandler ops \<lparr>detail = MegapixelReducerEvent_value m\<rparr> console
        = (Inr (), console @ [[JStr ''Auto Megapixel Reducer:'', MegapixelReducerEvent_value m]])"
    by (simp add: megapixelReducerHandler_def msg)
qed

text \<open>Both handlers on a batch of one unchanged image.\<close>

theorem all_unchanged_logs_event_only_witness:
  "map new (resize_info unchanged_event) = [''unchanged'']
   \<and> map new (resize_info unreduced_event) = [''unchanged'']
   \<and> resizeInfoHandler integer_ops \<lparr>detail = ResizeInfoEvent_value unchanged_event\<rparr> []
       = (Inr (), [[JStr ''Aspect Ratio Resizer:'', ResizeInfoEvent_value unchanged_event]])
   \<and> megapixelReducerHandler integer_ops \<lparr>detail = MegapixelReducerEvent_value unreduced_event\<rparr> []
       = (Inr (), [[JStr ''Auto Megapixel Reducer:'', MegapixelReducerEvent_value unreduced_event]])"
proof -
  have b: "map new (resize_info unchanged_event) = [''unchanged'']"
    "map new (resize_info unreduced_event) = [''unchanged'']"
    by (simp_all add: unchanged_event_def unreduced_event_def)
  have c: "\<forall>info \<in> set (resize_info unchanged_event). new info = ''unchanged''"
    "\<forall>info \<in> set (resize_info unreduced_event). new info = ''unchanged''"
    by (simp_all add: unchanged_event_def unreduced_event_def)
  show ?thesis
    using b c all_unchanged_logs_event_only
      [where d = unchanged_event and m = unreduced_event and ops = integer_ops and console = "[]"]
    by simp
qed

text \<open>
  C7, as amended. The image line of an entry shows original, arrow, new and the scale
  factor, and it additionally shows the constraint in square brackets exactly when the
  \<open>constraint\<close> field is present and is not the empty string: the source tests
  \<open>if (info.constraint)\<close>, and the empty string is falsy.
\<close>

theorem resizeInfo_line_shows_constraint:
  "resizeInfo_line ops (resize_entry_value info) index =
     Inr (''Image '' @ decimal (index + 1) @ '': '' @ original info @ '' '' @ arrow @ '' '' @ new info
          @ '' (scale: '' @ scale info @ '')''
          @ (case constraint info of None \<Rightarrow> [] | Some c \<Rightarrow> if c = [] then [] else '' ['' @ c @ '']''))"
  by (rule resizeInfo_line_value)

text \<open>
  C7 as stated fails for an entry whose \<open>constraint\<close> is present and empty: the line
  carries no bracket.
\<close>

theorem resizeInfo_line_empty_constraint_counterexample:
  "constraint empty_constraint_entry = Some []
   \<and> resizeInfo_line integer_ops (resize_entry_value empty_constraint_entry) 0
       = Inr (''Image 1: 1920x1080 '' @ arrow @ '' 1024x576 (scale: 0.533)'')
   \<and> CHR ''['' \<notin> set (''Image 1: 1920x1080 '' @ arrow @ '' 1024x576 (scale: 0.533)'')"
  by (simp add: resizeInfo_line_value empty_constraint_entry_def decimal.simps digit_def arrow_def)

text \<open>
  C8. For the example event of the specification the message contains the line
  \<open>Image 1: 1920x1080 -> 1024x576 (scale: 0.533)\<close> (with the arrow U+2192), whatever text
  the number \<open>batch_size\<close> renders to.
\<close>

theorem example_event_image_line:
  "\<exists>message.
     resizeInfo_message ops (ResizeInfoEvent_value
       \<lparr>batch_size = n,
        resize_info = [\<lparr>original = ''1920x1080'', new = ''1024x576'', scale = ''0.533'', constraint = None\<rparr>],
        constraints = ''width'', resize_mode = ''downscale_only'',
        enable_width = True, enable_height = False\<rparr>) = Inr message
     \<and> ''Image 1: 1920x1080 '' @ arrow @ '' 1024x576 (scale: 0.533)'' \<in> set (lines_of message)"
proof -
  let ?line = "''Image 1: 1920x1080 '' @ arrow @ '' 1024x576 (scale: 0.533)''"
  let ?d = "\<lparr>batch_size = n,
        resize_info = [\<lparr>original = ''1920x1080'', new = ''1024x576'', scale = ''0.533'', constraint = None\<rparr>],
        constraints = ''width'', resize_mode = ''downscale_only'',
        enable_width = True, enable_height = False\<rparr>"
  obtain header where h: "resizeInfo_header ops (ResizeInfoEvent_value ?d) = Inr (header @ [CHR 0x0A])"
    by (simp add: resizeInfo_header_value newline_def)
  have l: "resizeInfo_line ops (resize_entry_value
             \<lparr>original = ''1920x1080'', new = ''1024x576'', scale = ''0.533'', constraint = None\<rparr>) 0
           = Inr ?line"
    by (simp add: resizeInfo_line_value decimal.simps digit_def)
  have ri: "get_prop (ResizeInfoEvent_value ?d) ''resize_info''
      = Inr (JArr [resize_entry_value
             \<lparr>original = ''1920x1080'', new = ''1024x576'', scale = ''0.533'', constraint = None\<rparr>])"
    by (simp add: ResizeInfoEvent_value_def)
  have m: "resizeInfo_message ops (ResizeInfoEvent_value ?d)
      = Inr (header @ CHR 0x0A # (?line @ CHR 0x0A # []))"
    by (simp add: resizeInfo_message_def h ri forEach_def resizeInfo_callback_def l newline_def)
  have "CHR 0x0A \<notin> set ?line"
    by (simp add: arrow_def)
  then have "?line \<in> set (lines_of (header @ CHR 0x0A # (?line @ CHR 0x0A # [])))"
    unfolding lines_of_def by (rule line_in_split_on)
  with m show ?thesis by blast
qed

text \<open>The whole message for the example event, the batch size being the integer 1.\<close>

lemma example_event_message:
  "resizeInfo_message integer_ops (ResizeInfoEvent_value example_event)
     = Inr (''Aspect Ratio Resizer Results:'' @ newline
            @ ''Constraints: width'' @ newline
            @ ''Resize Mode: downscale_only'' @ newline
            @ ''Width Enabled: true'' @ newline
            @ ''Height Enabled: false'' @ newline
            @ ''Batch Size: 1'' @ newline @ newline
            @ ''Image 1: 1920x1080 '' @ arrow @ '' 1024x576 (scale: 0.533)'' @ newline)"
  by (simp add: example_event_def resizeInfo_message_def resizeInfo_header_def template_prop_def
      ResizeInfoEvent_value_def resize_entry_value_def forEach_def resizeInfo_callback_def
      resizeInfo_line_def integer_ops_def decimal.simps digit_def)

section \<open>Payloads with missing fields: properties\<close>

text \<open>
  C6, as amended. On a partially populated payload resizeInfoHandler completes without
  raising exactly when \<open>resize_info\<close> is an array on which the scan of \<open>some\<close> completes, and
  raises a \<open>TypeError\<close> otherwise; megapixelReducerHandler does so exactly when moreover
  \<open>original_megapixels\<close> is a number. Whenever \<open>resize_info\<close> is an array (and, for the megapixel
  event, \<open>original_megapixels\<close> a number) the formatted message is the header block and
  one line per entry, with each interpolated field shown by its text, and the text of a
  missing field is \<open>undefined\<close>.
\<close>

theorem partial_payload_handlers_complete:
  "(partial_ResizeInfoEvent data \<longrightarrow>
      fst (resizeInfoHandler ops \<lparr>detail = data\<rparr> console)
        = (if resizeInfo_completes data then Inr () else Inl TypeError)
      \<and> (\<forall>infos. own_field data ''resize_info'' = JArr infos \<longrightarrow>
           (\<exists>lines. length lines = length infos \<and>
              resizeInfo_message ops data =
                Inr (''Aspect Ratio Resizer Results:'' @ newline
                     @ ''Constraints: '' @ field_text ops data ''constraints'' @ newline
                     @ ''Resize Mode: '' @ field_text ops data ''resize_mode'' @ newline
                     @ ''Width Enabled: '' @ field_text ops data ''enable_width'' @ newline
                     @ ''Height Enabled: '' @ field_text ops data ''enable_height'' @ newline
                     @ ''Batch Size: '' @ field_text ops data ''batch_size'' @ newline @ newline
                     @ concat (map (\<lambda>l. l @ newline) lines)) \<and>
              (\<forall>i < length infos.
                 lines ! i =
                   ''Image '' @ decimal (i + 1) @ '': '' @ field_text ops (infos ! i) ''original''
                   @ '' '' @ arrow @ '' '' @ field_text ops (infos ! i) ''new''
                   @ '' (scale: '' @ field_text ops (infos ! i) ''scale'' @ '')''
                   @ bracketed_constraint ops (infos ! i)))))
   \<and> (partial_MegapixelReducerEvent data' \<longrightarrow>
      fst (megapixelReducerHandler ops \<lparr>detail = data'\<rparr> console)
        = (if megapixel_completes data' then Inr () else Inl TypeError)
      \<and> (\<forall>infos n. own_field data' ''resize_info'' = JArr infos
             \<and> own_field data' ''original_megapixels'' = JNum n \<longrightarrow>
           (\<exists>lines. length lines = length infos \<and>
              megapixel_message ops data' =
                Inr (''Auto Megapixel Reducer Results:'' @ newline
                     @ ''Target: '' @ field_text ops data' ''max_megapixels'' @ ''MP'' @ newline
                     @ ''Original: '' @ Number_toFixed ops n 2 @ ''MP'' @ newline
                     @ ''Only Reduce Mode: '' @ field_text ops data' ''only_reduce'' @ newline
                     @ ''Batch Size: '' @ field_text ops data' ''batch_size'' @ newline @ newline
                     @ concat (map (\<lambda>l. l @ newline) lines)) \<and>
              (\<forall>i < length infos.
                 lines ! i =
                   ''Image '' @ decimal (i + 1) @ '': '' @ field_text ops (infos ! i) ''original''
                   @ '' '' @ arrow @ '' '' @ field_text ops (infos ! i) ''new''
                   @ '' ('' @ field_text ops (infos ! i) ''megapixels'' @ '') [scale: ''
                   @ field_text ops (infos ! i) ''scale'' @ '']''))))
   \<and> (map_of qs k = None \<longrightarrow> field_text ops (JObj qs) k = ''undefined'')"
proof (intro conjI impI allI)
  assume a: "partial_ResizeInfoEvent data"
  show "fst (resizeInfoHandler ops \<lparr>detail = data\<rparr> console)
        = (if resizeInfo_completes data then Inr () else Inl TypeError)"
    by (rule resizeInfoHandler_partial(1) [OF a])
  fix infos
  assume "own_field data ''resize_info'' = JArr infos"
  then show "\<exists>lines. length lines = length infos \<and>
              resizeInfo_message ops data =
                Inr (''Aspect Ratio Resizer Results:'' @ newline
                     @ ''Constraints: '' @ field_text ops data ''constraints'' @ newline
                     @ ''Resize Mode: '' @ field_text ops data ''resize_mode'' @ newline
                     @ ''Width Enabled: '' @ field_text ops data ''enable_width'' @ newline
                     @ ''Height Enabled: '' @ field_text ops data ''enable_height'' @ newline
                     @ ''Batch Size: '' @ field_text ops data ''batch_size'' @ newline @ newline
                     @ concat (map (\<lambda>l. l @ newline) lines)) \<and>
              (\<forall>i < length infos.
                 lines ! i =
                   ''Image '' @ decimal (i + 1) @ '': '' @ field_text ops (infos ! i) ''original''
                   @ '' '' @ arrow @ '' '' @ field_text ops (infos ! i) ''new''
                   @ '' (scale: '' @ field_text ops (infos ! i) ''scale'' @ '')''
                   @ bracketed_constraint ops (infos ! i))"
    by (rule resizeInfoHandler_partial(2) [OF a])
next
  assume a: "partial_MegapixelReducerEvent data'"
  show "fst (megapixelReducerHandler ops \<lparr>detail = data'\<rparr> console)
        = (if megapixel_completes data' then Inr () else Inl TypeError)"
    by (rule megapixelReducerHandler_partial(1) [OF a])
  fix infos n
  assume "own_field data' ''resize_info'' = JArr infos
             \<and> own_field data' ''original_megapixels'' = JNum n"
  then have b: "own_field data' ''resize_info'' = JArr infos"
    and c: "own_field data' ''original_megapixels'' = JNum n"
    by simp_all
  show "\<exists>lines. length lines = length infos \<and>
              megapixel_message ops data' =
                Inr (''Auto Megapixel Reducer Results:'' @ newline
                     @ ''Target: '' @ field_text ops data' ''max_megapixels'' @ ''MP'' @ newline
                     @ ''Original: '' @ Number_toFixed ops n 2 @ ''MP'' @ newline
                     @ ''Only Reduce Mode: '' @ field_text ops data' ''only_reduce'' @ newline
                     @ ''Batch Size: '' @ field_text ops data' ''batch_size'' @ newline @ newline
                     @ concat (map (\<lambda>l. l @ newline) lines)) \<and>
              (\<forall>i < length infos.
                 lines ! i =
                   ''Image '' @ decimal (i + 1) @ '': '' @ field_text ops (infos ! i) ''original''
                   @ '' '' @ arrow @ '' '' @ field_text ops (infos ! i) ''new''
                   @ '' ('' @ field_text ops (infos ! i) ''megapixels'' @ '') [scale: ''
                   @ field_text ops (infos ! i) ''scale'' @ '']'')"
    by (rule megapixelReducerHandler_partial(2) [OF a b c])
next
  assume "map_of qs k = None"
  then show "field_text ops (JObj qs) k = ''undefined''"
    by (rule field_text_missing)
qed

text \<open>
  Payloads that keep only what the handlers need, with the messages they give; a payload
  in which a later entry lacks \<open>new\<close>; and payloads without \<open>resize_info\<close> or without
  \<open>original_megapixels\<close>.
\<close>

theorem partial_payload_handlers_complete_witness:
  "partial_ResizeInfoEvent sparse_resize_payload
   \<and> fst (resizeInfoHandler integer_ops \<lparr>detail = sparse_resize_payload\<rparr> []) = Inr ()
   \<and> resizeInfo_message integer_ops sparse_resize_payload
       = Inr (''Aspect Ratio Resizer Results:'' @ newline
              @ ''Constraints: undefined'' @ newline
              @ ''Resize Mode: undefined'' @ newline
              @ ''Width Enabled: undefined'' @ newline
              @ ''Height Enabled: undefined'' @ newline
              @ ''Batch Size: undefined'' @ newline @ newline
              @ ''Image 1: undefined '' @ arrow @ '' 1024x576 (scale: undefined)'' @ newline)
   \<and> partial_MegapixelReducerEvent sparse_megapixel_payload
   \<and> fst (megapixelReducerHandler integer_ops \<lparr>detail = sparse_megapixel_payload\<rparr> []) = Inr ()
   \<and> megapixel_message integer_ops sparse_megapixel_payload
       = Inr (''Auto Megapixel Reducer Results:'' @ newline
              @ ''Target: undefinedMP'' @ newline
              @ ''Original: 8.00MP'' @ newline
              @ ''Only Reduce Mode: undefined'' @ newline
              @ ''Batch Size: undefined'' @ newline @ newline
              @ ''Image 1: undefined '' @ arrow @ '' 1884x1060 (undefined) [scale: undefined]''
              @ newline)
   \<and> partial_ResizeInfoEvent payload_without_new_after_resized
   \<and> fst (resizeInfoHandler integer_ops \<lparr>detail = payload_without_new_after_resized\<rparr> []) = Inr ()
   \<and> partial_ResizeInfoEvent (JObj fields_without_resize_info)
   \<and> fst (resizeInfoHandler integer_ops \<lparr>detail = JObj fields_without_resize_info\<rparr> [])
       = Inl TypeError
   \<and> partial_MegapixelReducerEvent (JObj fields_without_original_megapixels)
   \<and> fst (megapixelReducerHandler integer_ops \<lparr>detail = JObj fields_without_original_megapixels\<rparr> [])
       = Inl TypeError
   \<and> map_of sparse_resize_fields ''constraints'' = None
   \<and> field_text integer_ops (JObj sparse_resize_fields) ''constraints'' = ''undefined''"
proof -
  note defs = partial_ResizeInfoEvent_def partial_MegapixelReducerEvent_def
    partial_resize_entry_def partial_megapixel_entry_def primitive_fields_def
    resizeInfo_completes_def megapixel_completes_def String_includes_def sublist_code
  have p: "partial_ResizeInfoEvent sparse_resize_payload"
    "partial_MegapixelReducerEvent sparse_megapixel_payload"
    "partial_ResizeInfoEvent payload_without_new_after_resized"
    "partial_ResizeInfoEvent (JObj fields_without_resize_info)"
    "partial_MegapixelReducerEvent (JObj fields_without_original_megapixels)"
    by (simp_all add: defs sparse_resize_payload_def sparse_resize_fields_def
        sparse_megapixel_payload_def
        payload_without_new_after_resized_def fields_without_resize_info_def
        fields_without_original_megapixels_def)
  have c: "resizeInfo_completes sparse_resize_payload"
    "megapixel_completes sparse_megapixel_payload"
    "resizeInfo_completes payload_without_new_after_resized"
    "\<not> resizeInfo_completes (JObj fields_without_resize_info)"
    "\<not> megapixel_completes (JObj fields_without_original_megapixels)"
    by (simp_all add: defs sparse_resize_payload_def sparse_resize_fields_def
        sparse_megapixel_payload_def
        payload_without_new_after_resized_def fields_without_resize_info_def
        fields_without_original_megapixels_def)
  have f: "own_field sparse_resize_payload ''resize_info'' = JArr [JObj [(''new'', JStr ''1024x576'')]]"
    "own_field sparse_megapixel_payload ''resize_info'' = JArr [JObj [(''new'', JStr ''1884x1060'')]]
     \<and> own_field sparse_megapixel_payload ''original_megapixels'' = JNum 8"
    "map_of sparse_resize_fields ''constraints'' = None"
    by (simp_all add: sparse_resize_payload_def sparse_resize_fields_def
        sparse_megapixel_payload_def)
  note t1 = partial_payload_handlers_complete
      [where data = sparse_resize_payload and data' = sparse_megapixel_payload
         and qs = sparse_resize_fields and k = "''constraints''"
         and ops = integer_ops and console = "[]"]
  note t2 = partial_payload_handlers_complete
      [where data = "JObj fields_without_resize_info"
         and data' = "JObj fields_without_original_megapixels"
         and qs = sparse_resize_fields and k = "''constraints''"
         and ops = integer_ops and console = "[]"]
  note t3 = partial_payload_handlers_complete
      [where data = payload_without_new_after_resized and data' = sparse_megapixel_payload
         and qs = sparse_resize_fields and k = "''constraints''"
         and ops = integer_ops and console = "[]"]
  obtain lines where len: "length lines = 1"
    and m: "resizeInfo_message integer_ops sparse_resize_payload =
       Inr (''Aspect Ratio Resizer Results:'' @ newline
            @ ''Constraints: '' @ field_text integer_ops sparse_resize_payload ''constraints'' @ newline
            @ ''Resize Mode: '' @ field_text integer_ops sparse_resize_payload ''resize_mode'' @ newline
            @ ''Width Enabled: '' @ field_text integer_ops sparse_resize_payload ''enable_width'' @ newline
            @ ''Height Enabled: '' @ field_text integer_ops sparse_resize_payload ''enable_height'' @ newline
            @ ''Batch Size: '' @ field_text integer_ops sparse_resize_payload ''batch_size'' @ newline @ newline
            @ concat (map (\<lambda>l. l @ newline) lines))"
    and l0: "lines ! 0 = ''Image 1: undefined '' @ arrow @ '' 1024x576 (scale: undefined)''"
    using t1 p(1) f(1)
    by (auto simp add: field_text_def bracketed_constraint_def decimal.simps digit_def)
  have "lines = [lines ! 0]"
    using len by (cases lines) auto
  then have ls: "lines = [''Image 1: undefined '' @ arrow @ '' 1024x576 (scale: undefined)'']"
    using l0 by simp
  obtain lines' where len': "length lines' = 1"
    and m': "megapixel_message integer_ops sparse_megapixel_payload =
       Inr (''Auto Megapixel Reducer Results:'' @ newline
            @ ''Target: '' @ field_text integer_ops sparse_megapixel_payload ''max_megapixels'' @ ''MP'' @ newline
            @ ''Original: '' @ Number_toFixed integer_ops 8 2 @ ''MP'' @ newline
            @ ''Only Reduce Mode: '' @ field_text integer_ops sparse_megapixel_payload ''only_reduce'' @ newline
            @ ''Batch Size: '' @ field_text integer_ops sparse_megapixel_payload ''batch_size'' @ newline @ newline
            @ concat (map (\<lambda>l. l @ newline) lines'))"
    and l0': "lines' ! 0 = ''Image 1: undefined '' @ arrow
                @ '' 1884x1060 (undefined) [scale: undefined]''"
    using t1 p(2) f(2)
    by (auto simp add: field_text_def decimal.simps digit_def)
  have "lines' = [lines' ! 0]"
    using len' by (cases lines') auto
  then have ls': "lines' = [''Image 1: undefined '' @ arrow
                @ '' 1884x1060 (undefined) [scale: undefined]'']"
    using l0' by simp
  have texts: "field_text integer_ops sparse_resize_payload k = ''undefined''"
    if "k \<noteq> ''resize_info''" for k
    using that by (simp add: field_text_def sparse_resize_payload_def sparse_resize_fields_def)
  have texts': "field_text integer_ops sparse_megapixel_payload k = ''undefined''"
    if "k \<noteq> ''resize_info''" "k \<noteq> ''original_megapixels''" for k
    using that by (simp add: field_text_def sparse_megapixel_payload_def)
  have fixed: "Number_toFixed integer_ops 8 2 = ''8.00''"
    by (simp add: integer_ops_def decimal.simps digit_def numeral_2_eq_2)
  have msg: "resizeInfo_message integer_ops sparse_resize_payload
       = Inr (''Aspect Ratio Resizer Results:'' @ newline
              @ ''Constraints: undefined'' @ newline
              @ ''Resize Mode: undefined'' @ newline
              @ ''Width Enabled: undefined'' @ newline
              @ ''Height Enabled: undefined'' @ newline
              @ ''Batch Size: undefined'' @ newline @ newline
              @ ''Image 1: undefined '' @ arrow @ '' 1024x576 (scale: undefined)'' @ newline)"
    unfolding m ls by (simp add: texts)
  have msg': "megapixel_message integer_ops sparse_megapixel_payload
       = Inr (''Auto Megapixel Reducer Results:'' @ newline
              @ ''Target: undefinedMP'' @ newline
              @ ''Original: 8.00MP'' @ newline
              @ ''Only Reduce Mode: undefined'' @ newline
              @ ''Batch Size: undefined'' @ newline @ newline
              @ ''Image 1: undefined '' @ arrow @ '' 1884x1060 (undefined) [scale: undefined]''
              @ newline)"
    unfolding m' ls' by (simp add: texts' fixed)
  show ?thesis
    using p c f(3) t1 t2 t3 msg msg' by simp
qed

text \<open>
  C6 as stated fails: a ResizeInfoEvent without \<open>resize_info\<close> and a MegapixelReducerEvent
  without \<open>original_megapixels\<close> make the handlers raise before anything is logged, and an
  entry without \<open>new\<close> makes resizeInfoHandler raise after it logged the raw payload.
\<close>

theorem missing_resize_info_raises_counterexample:
  "fst (resizeInfoHandler integer_ops \<lparr>detail = JObj fields_without_resize_info\<rparr> [])
     = Inl TypeError
   \<and> fst (megapixelReducerHandler integer_ops \<lparr>detail = JObj fields_without_original_megapixels\<rparr> [])
     = Inl TypeError
   \<and> resizeInfoHandler integer_ops \<lparr>detail = payload_with_entry_without_new\<rparr> []
     = (Inl TypeError, [[JStr ''Aspect Ratio Resizer:'', payload_with_entry_without_new]])"
  by (simp add: fields_without_resize_info_def fields_without_original_megapixels_def
      payload_with_entry_without_new_def
      resizeInfoHandler_def resizeInfo_message_def resizeInfo_header_def template_prop_def
      forEach_def resizeInfo_callback_def resizeInfo_line_def any_resized_def was_resized_def
      megapixelReducerHandler_def megapixel_message_def megapixel_header_def integer_ops_def)

section \<open>The node cosmetic decorator: properties\<close>

lemma beforeRegisterNodeDef_AspectRatioResizer:
  "name nodeData = ''AspectRatioResizer'' \<Longrightarrow>
     onNodeCreated (prototype (beforeRegisterNodeDef nodeType nodeData app))
       = Function (AspectRatioResizer_onNodeCreated (onNodeCreated (prototype nodeType)))"
  by (simp add: beforeRegisterNodeDef_def)

lemma beforeRegisterNodeDef_AutoMegapixelReducer:
  "name nodeData = ''AutoMegapixelReducer'' \<Longrightarrow>
     onNodeCreated (prototype (beforeRegisterNodeDef nodeType nodeData app))
       = Function (AutoMegapixelReducer_onNodeCreated (onNodeCreated (prototype nodeType)))"
  by (simp add: beforeRegisterNodeDef_def)

lemma AspectRatioResizer_onNodeCreated_returns:
  "AspectRatioResizer_onNodeCreated h this arguments = (Inr result, this1) \<Longrightarrow>
     title this1 = JStr ''Aspect Ratio Resizer'' \<and> color this1 = JStr ''#2a4d3a''
     \<and> bgcolor this1 = JStr ''#335544''"
  by (auto simp add: AspectRatioResizer_onNodeCreated_def split: prod.splits sum.splits)

lemma AutoMegapixelReducer_onNodeCreated_returns:
  "AutoMegapixelReducer_onNodeCreated h this arguments = (Inr result, this1) \<Longrightarrow>
     title this1 = JStr ''Auto Megapixel Reducer'' \<and> color this1 = JStr ''#4d2a3a''
     \<and> bgcolor this1 = JStr ''#553344''"
  by (auto simp add: AutoMegapixelReducer_onNodeCreated_def split: prod.splits sum.splits)

text \<open>
  C4, as amended. Every invocation of the installed hook that returns leaves the
  receiver with the title and the two colours of its node type, and a further
  invocation that returns leaves the same three values.
\<close>

theorem completed_invocation_decorates:
  "(name nodeData = ''AspectRatioResizer'' \<longrightarrow>
      (call_hook (onNodeCreated (prototype (beforeRegisterNodeDef nodeType nodeData app))) this arguments
         = (Inr result, this') \<longrightarrow>
       title this' = JStr ''Aspect Ratio Resizer'' \<and> color this' = JStr ''#2a4d3a''
       \<and> bgcolor this' = JStr ''#335544''
       \<and> (call_hook (onNodeCreated (prototype (beforeRegisterNodeDef nodeType nodeData app))) this' arguments'
             = (Inr result', this'') \<longrightarrow>
           title this'' = title this' \<and> color this'' = color this' \<and> bgcolor this'' = bgcolor this')))
   \<and> (name nodeData = ''AutoMegapixelReducer'' \<longrightarrow>
      (call_hook (onNodeCreated (prototype (beforeRegisterNodeDef nodeType nodeData app))) this arguments
         = (Inr result, this') \<longrightarrow>
       title this' = JStr ''Auto Megapixel Reducer'' \<and> color this' = JStr ''#4d2a3a''
       \<and> bgcolor this' = JStr ''#553344''
       \<and> (call_hook (onNodeCreated (prototype (beforeRegisterNodeDef nodeType nodeData app))) this' arguments'
             = (Inr result', this'') \<longrightarrow>
           title this'' = title this' \<and> color this'' = color this' \<and> bgcolor this'' = bgcolor this')))"
proof (intro conjI impI)
  assume n: "name nodeData = ''AspectRatioResizer''"
  let ?w = "AspectRatioResizer_onNodeCreated (onNodeCreated (prototype nodeType))"
  have h: "call_hook (onNodeCreated (prototype (beforeRegisterNodeDef nodeType nodeData app))) = ?w"
    by (simp add: beforeRegisterNodeDef_AspectRatioResizer [OF n] call_hook_def fun_eq_iff)
  assume "call_hook (onNodeCreated (prototype (beforeRegisterNodeDef nodeType nodeData app))) this arguments
         = (Inr result, this')"
  then have 1: "title this' = JStr ''Aspect Ratio Resizer'' \<and> color this' = JStr ''#2a4d3a''
     \<and> bgcolor this' = JStr ''#335544''"
    unfolding h by (rule AspectRatioResizer_onNodeCreated_returns)
  from 1 show "title this' = JStr ''Aspect Ratio Resizer''" "color this' = JStr ''#2a4d3a''"
    "bgcolor this' = JStr ''#335544''" by simp_all
  assume "call_hook (onNodeCreated (prototype (beforeRegisterNodeDef nodeType nodeData app))) this' arguments'
             = (Inr result', this'')"
  then have 2: "title this'' = JStr ''Aspect Ratio Resizer'' \<and> color this'' = JStr ''#2a4d3a''
     \<and> bgcolor this'' = JStr ''#335544''"
    unfolding h by (rule AspectRatioResizer_onNodeCreated_returns)
  from 1 2 show "title this'' = title this'" "color this'' = color this'" "bgcolor this'' = bgcolor this'"
    by simp_all
next
  assume n: "name nodeData = ''AutoMegapixelReducer''"
  let ?w = "AutoMegapixelReducer_onNodeCreated (onNodeCreated (prototype nodeType))"
  have h: "call_hook (onNodeCreated (prototype (beforeRegisterNodeDef nodeType nodeData app))) = ?w"
    by (simp add: beforeRegisterNodeDef_AutoMegapixelReducer [OF n] call_hook_def fun_eq_iff)
  assume "call_hook (onNodeCreated (prototype (beforeRegisterNodeDef nodeType nodeData app))) this arguments
         = (Inr result, this')"
  then have 1: "title this' = JStr ''Auto Megapixel Reducer'' \<and> color this' = JStr ''#4d2a3a''
     \<and> bgcolor this' = JStr ''#553344''"
    unfolding h by (rule AutoMegapixelReducer_onNodeCreated_returns)
  from 1 show "title this' = JStr ''Auto Megapixel Reducer''" "color this' = JStr ''#4d2a3a''"
    "bgcolor this' = JStr ''#553344''" by simp_all
  assume "call_hook (onNodeCreated (prototype (beforeRegisterNodeDef nodeType nodeData app))) this' arguments'
             = (Inr result', this'')"
  then have 2: "title this'' = JStr ''Auto Megapixel Reducer'' \<and> color this'' = JStr ''#4d2a3a''
     \<and> bgcolor this'' = JStr ''#553344''"
    unfolding h by (rule AutoMegapixelReducer_onNodeCreated_returns)
  from 1 2 show "title this'' = title this'" "color this'' = color this'" "bgcolor this'' = bgcolor this'"
    by simp_all
qed

text \<open>Two invocations in a row, on both node types.\<close>

theorem completed_invocation_decorates_witness:
  "call_hook (onNodeCreated (prototype (beforeRegisterNodeDef
       (node_type_with (Function returning_hook)) \<lparr>name = ''AspectRatioResizer''\<rparr> ())))
     fresh_node []
     = (Inr (JStr ''created''),
        \<lparr>title = JStr ''Aspect Ratio Resizer'', color = JStr ''#2a4d3a'', bgcolor = JStr ''#335544''\<rparr>)
   \<and> call_hook (onNodeCreated (prototype (beforeRegisterNodeDef
       (node_type_with (Function returning_hook)) \<lparr>name = ''AspectRatioResizer''\<rparr> ())))
     \<lparr>title = JStr ''Aspect Ratio Resizer'', color = JStr ''#2a4d3a'', bgcolor = JStr ''#335544''\<rparr> []
     = (Inr (JStr ''created''),
        \<lparr>title = JStr ''Aspect Ratio Resizer'', color = JStr ''#2a4d3a'', bgcolor = JStr ''#335544''\<rparr>)
   \<and> call_hook (onNodeCreated (prototype (beforeRegisterNodeDef
       (node_type_with (Function returning_hook)) \<lparr>name = ''AutoMegapixelReducer''\<rparr> ())))
     fresh_node []
     = (Inr (JStr ''created''),
        \<lparr>title = JStr ''Auto Megapixel Reducer'', color = JStr ''#4d2a3a'', bgcolor = JStr ''#553344''\<rparr>)
   \<and> call_hook (onNodeCreated (prototype (beforeRegisterNodeDef
       (node_type_with (Function returning_hook)) \<lparr>name = ''AutoMegapixelReducer''\<rparr> ())))
     \<lparr>title = JStr ''Auto Megapixel Reducer'', color = JStr ''#4d2a3a'', bgcolor = JStr ''#553344''\<rparr> []
     = (Inr (JStr ''created''),
        \<lparr>title = JStr ''Auto Megapixel Reducer'', color = JStr ''#4d2a3a'', bgcolor = JStr ''#553344''\<rparr>)"
  using completed_invocation_decorates
      [where nodeData = "\<lparr>name = ''AspectRatioResizer''\<rparr>"
         and nodeType = "node_type_with (Function returning_hook)" and app = "()"
         and this = fresh_node and arguments = "[]" and result = "JStr ''created''"
         and this' = "\<lparr>title = JStr ''Aspect Ratio Resizer'', color = JStr ''#2a4d3a'',
                        bgcolor = JStr ''#335544''\<rparr>"
         and arguments' = "[]" and result' = "JStr ''created''"
         and this'' = "\<lparr>title = JStr ''Aspect Ratio Resizer'', color = JStr ''#2a4d3a'',
                         bgcolor = JStr ''#335544''\<rparr>"]
    completed_invocation_decorates
      [where nodeData = "\<lparr>name = ''AutoMegapixelReducer''\<rparr>"
         and nodeType = "node_type_with (Function returning_hook)" and app = "()"
         and this = fresh_node and arguments = "[]" and result = "JStr ''created''"
         and this' = "\<lparr>title = JStr ''Auto Megapixel Reducer'', color = JStr ''#4d2a3a'',
                        bgcolor = JStr ''#553344''\<rparr>"
         and arguments' = "[]" and result' = "JStr ''created''"
         and this'' = "\<lparr>title = JStr ''Auto Megapixel Reducer'', color = JStr ''#4d2a3a'',
                         bgcolor = JStr ''#553344''\<rparr>"]
  by (simp add: node_type_with_def fresh_node_def returning_hook_def beforeRegisterNodeDef_def
      call_hook_def AspectRatioResizer_onNodeCreated_def AutoMegapixelReducer_onNodeCreated_def
      optional_apply_def)

text \<open>
  C4 as stated fails: the installed hook calls the earlier hook before its three
  assignments, so when the earlier hook raises, the invocation raises too and the
  title is the one the node had.
\<close>

theorem throwing_hook_counterexample:
  "call_hook (onNodeCreated (prototype (beforeRegisterNodeDef
       (node_type_with (Function throwing_hook)) \<lparr>name = ''AspectRatioResizer''\<rparr> ())))
     fresh_node []
     = (Inl (Thrown ''boom''), fresh_node)
   \<and> title fresh_node \<noteq> JStr ''Aspect Ratio Resizer''"
  by (simp add: node_type_with_def fresh_node_def throwing_hook_def beforeRegisterNodeDef_def
      call_hook_def AspectRatioResizer_onNodeCreated_def optional_apply_def)

text \<open>
  C5. When a matching node type already has a function as its \<open>onNodeCreated\<close> hook, the
  installed hook completes exactly as that function does on the same receiver and the
  same arguments (the same return value, or the same exception), and the receiver it
  leaves is the one that function leaves, up to the three presentation fields: the
  earlier hook is called first, and its return value is handed back unchanged.
\<close>

theorem existing_hook_result_preserved:
  "(name nodeData = ''AspectRatioResizer'' \<or> name nodeData = ''AutoMegapixelReducer'')
   \<and> onNodeCreated (prototype nodeType) = Function f \<longrightarrow>
     fst (call_hook (onNodeCreated (prototype (beforeRegisterNodeDef nodeType nodeData app))) this arguments)
       = fst (f this arguments)
     \<and> snd (call_hook (onNodeCreated (prototype (beforeRegisterNodeDef nodeType nodeData app))) this arguments)
       = (snd (f this arguments))
           \<lparr>title := title (snd (call_hook (onNodeCreated (prototype
                         (beforeRegisterNodeDef nodeType nodeData app))) this arguments)),
            color := color (snd (call_hook (onNodeCreated (prototype
                         (beforeRegisterNodeDef nodeType nodeData app))) this arguments)),
            bgcolor := bgcolor (snd (call_hook (onNodeCreated (prototype
                         (beforeRegisterNodeDef nodeType nodeData app))) this arguments))\<rparr>"
proof (intro impI, elim conjE disjE)
  assume n: "name nodeData = ''AspectRatioResizer''" and f: "onNodeCreated (prototype nodeType) = Function f"
  show "fst (call_hook (onNodeCreated (prototype (beforeRegisterNodeDef nodeType nodeData app))) this arguments)
       = fst (f this arguments)
     \<and> snd (call_hook (onNodeCreated (prototype (beforeRegisterNodeDef nodeType nodeData app))) this arguments)
       = (snd (f this arguments))
           \<lparr>title := title (snd (call_hook (onNodeCreated (prototype
                         (beforeRegisterNodeDef nodeType nodeData app))) this arguments)),
            color := color (snd (call_hook (onNodeCreated (prototype
                         (beforeRegisterNodeDef nodeType nodeData app))) this arguments)),
            bgcolor := bgcolor (snd (call_hook (onNodeCreated (prototype
                         (beforeRegisterNodeDef nodeType nodeData app))) this arguments))\<rparr>"
    by (simp add: beforeRegisterNodeDef_AspectRatioResizer [OF n] f call_hook_def
        AspectRatioResizer_onNodeCreated_def optional_apply_def split: prod.splits sum.splits)
next
  assume n: "name nodeData = ''AutoMegapixelReducer''" and f: "onNodeCreated (prototype nodeType) = Function f"
  show "fst (call_hook (onNodeCreated (prototype (beforeRegisterNodeDef nodeType nodeData app))) this arguments)
       = fst (f this arguments)
     \<and> snd (call_hook (onNodeCreated (prototype (beforeRegisterNodeDef nodeType nodeData app))) this arguments)
       = (snd (f this arguments))
           \<lparr>title := title (snd (call_hook (onNodeCreated (prototype
                         (beforeRegisterNodeDef nodeType nodeData app))) this arguments)),
            color := color (snd (call_hook (onNodeCreated (prototype
                         (beforeRegisterNodeDef nodeType nodeData app))) this arguments)),
            bgcolor := bgcolor (snd (call_hook (onNodeCreated (prototype
                         (beforeRegisterNodeDef nodeType nodeData app))) this arguments))\<rparr>"
    by (simp add: beforeRegisterNodeDef_AutoMegapixelReducer [OF n] f call_hook_def
        AutoMegapixelReducer_onNodeCreated_def optional_apply_def split: prod.splits sum.splits)
qed

text \<open>A hook that sets a title of its own and returns a value, on both node types.\<close>

theorem existing_hook_result_preserved_witness:
  "onNodeCreated (prototype (node_type_with (Function returning_hook))) = Function returning_hook
   \<and> fst (returning_hook fresh_node []) = Inr (JStr ''created'')
   \<and> fst (call_hook (onNodeCreated (prototype (beforeRegisterNodeDef
            (node_type_with (Function returning_hook)) \<lparr>name = ''AspectRatioResizer''\<rparr> ())))
          fresh_node [])
       = Inr (JStr ''created'')
   \<and> fst (call_hook (onNodeCreated (prototype (beforeRegisterNodeDef
            (node_type_with (Function returning_hook)) \<lparr>name = ''AutoMegapixelReducer''\<rparr> ())))
          fresh_node [])
       = Inr (JStr ''created'')"
proof -
  have a: "onNodeCreated (prototype (node_type_with (Function returning_hook))) = Function returning_hook"
    by (simp add: node_type_with_def)
  have b: "fst (returning_hook fresh_node []) = Inr (JStr ''created'')"
    by (simp add: returning_hook_def)
  show ?thesis
    using a b
      existing_hook_result_preserved
        [where nodeData = "\<lparr>name = ''AspectRatioResizer''\<rparr>"
           and nodeType = "node_type_with (Function returning_hook)" and app = "()"
           and f = returning_hook and this = fresh_node and arguments = "[]"]
      existing_hook_result_preserved
        [where nodeData = "\<lparr>name = ''AutoMegapixelReducer''\<rparr>"
           and nodeType = "node_type_with (Function returning_hook)" and app = "()"
           and f = returning_hook and this = fresh_node and arguments = "[]"]
    by simp
qed

text \<open>
  C9. When the hook property is \<open>undefined\<close> at the time a matching node type is wrapped,
  an invocation of the installed hook completes without raising, returns \<open>undefined\<close> and
  leaves the receiver with the title and the two colours of its node type.
\<close>

theorem absent_hook_decorates:
  "(name nodeData = ''AspectRatioResizer'' \<and> onNodeCreated (prototype nodeType) = Value JUndefined \<longrightarrow>
      call_hook (onNodeCreated (prototype (beforeRegisterNodeDef nodeType nodeData app))) this arguments
        = (Inr JUndefined,
           this\<lparr>title := JStr ''Aspect Ratio Resizer'', color := JStr ''#2a4d3a'',
                bgcolor := JStr ''#335544''\<rparr>))
   \<and> (name nodeData = ''AutoMegapixelReducer'' \<and> onNodeCreated (prototype nodeType) = Value JUndefined \<longrightarrow>
      call_hook (onNodeCreated (prototype (beforeRegisterNodeDef nodeType nodeData app))) this arguments
        = (Inr JUndefined,
           this\<lparr>title := JStr ''Auto Megapixel Reducer'', color := JStr ''#4d2a3a'',
                bgcolor := JStr ''#553344''\<rparr>))"
  by (simp add: beforeRegisterNodeDef_AspectRatioResizer beforeRegisterNodeDef_AutoMegapixelReducer
      call_hook_def AspectRatioResizer_onNodeCreated_def AutoMegapixelReducer_onNodeCreated_def
      optional_apply_def)

text \<open>Both node types, without a hook of their own.\<close>

theorem absent_hook_decorates_witness:
  "onNodeCreated (prototype (node_type_with (Value JUndefined))) = Value JUndefined
   \<and> call_hook (onNodeCreated (prototype (beforeRegisterNodeDef (node_type_with (Value JUndefined))
          \<lparr>name = ''AspectRatioResizer''\<rparr> ()))) fresh_node []
       = (Inr JUndefined,
          \<lparr>title = JStr ''Aspect Ratio Resizer'', color = JStr ''#2a4d3a'',
           bgcolor = JStr ''#335544''\<rparr>)
   \<and> call_hook (onNodeCreated (prototype (beforeRegisterNodeDef (node_type_with (Value JUndefined))
          \<lparr>name = ''AutoMegapixelReducer''\<rparr> ()))) fresh_node []
       = (Inr JUndefined,
          \<lparr>title = JStr ''Auto Megapixel Reducer'', color = JStr ''#4d2a3a'',
           bgcolor = JStr ''#553344''\<rparr>)"
proof -
  have a: "onNodeCreated (prototype (node_type_with (Value JUndefined))) = Value JUndefined"
    by (simp add: node_type_with_def)
  have b: "fresh_node\<lparr>title := t, color := c, bgcolor := b\<rparr> = \<lparr>title = t, color = c, bgcolor = b\<rparr>"
    for t c b
    by (simp add: fresh_node_def)
  show ?thesis
    using a
      absent_hook_decorates
        [where nodeData = "\<lparr>name = ''AspectRatioResizer''\<rparr>"
           and nodeType = "node_type_with (Value JUndefined)" and app = "()"
           and this = fresh_node and arguments = "[]"]
      absent_hook_decorates
        [where nodeData = "\<lparr>name = ''AutoMegapixelReducer''\<rparr>"
           and nodeType = "node_type_with (Value JUndefined)" and app = "()"
           and this = fresh_node and arguments = "[]"]
    by (simp add: b)
qed

text \<open>
  C10. For a node definition whose name is neither \<open>AspectRatioResizer\<close> nor
  \<open>AutoMegapixelReducer\<close>, \<open>beforeRegisterNodeDef\<close> leaves the node type as it was, its
  \<open>onNodeCreated\<close> hook included.
\<close>

theorem unrelated_node_type_unchanged:
  "name nodeData \<noteq> ''AspectRatioResizer'' \<Longrightarrow> name nodeData \<noteq> ''AutoMegapixelReducer'' \<Longrightarrow>
     beforeRegisterNodeDef nodeType nodeData app = nodeType"
  by (simp add: beforeRegisterNodeDef_def)

text \<open>Another node type keeps the value at its hook property.\<close>

theorem unrelated_node_type_unchanged_witness:
  "name \<lparr>name = ''KSampler''\<rparr> \<noteq> ''AspectRatioResizer''
   \<and> name \<lparr>name = ''KSampler''\<rparr> \<noteq> ''AutoMegapixelReducer''
   \<and> beforeRegisterNodeDef (node_type_with (Function returning_hook)) \<lparr>name = ''KSampler''\<rparr> ()
       = node_type_with (Function returning_hook)"
  using unrelated_node_type_unchanged
      [where nodeData = "\<lparr>name = ''KSampler''\<rparr>"
         and nodeType = "node_type_with (Function returning_hook)" and app = "()"]
  by simp

end
